theory Spec2Isabelle
  imports Complex_Main "HOL-Library.Word"
begin

unbundle bit_operations_syntax

section \<open>Audio bridge between the media leg and the streaming leg\<close>

text \<open>
  A shallow embedding of the audio path of the call server: the capture callback
  \<open>audioSink.ondata\<close> with \<open>sendAudioToElevenLabs\<close> (audio/bridge), the playback
  module (\<open>startAudioPlayback\<close>, \<open>addToPlaybackBuffer\<close>, \<open>resetPlayback\<close>), the ingest
  handler \<open>handleElevenLabsAudio\<close> (handlers/elevenlabs.handler.js) and the older
  upsampling \<open>handleElevenLabsAudio\<close> of server-elevenlabs.js.

  An \<open>Int16Array\<close> is a list of 16-bit words, a Node \<open>Buffer\<close> a list of bytes.
  Module-level variables and the variables a closure captures are fields of a state
  record; each function takes the state and returns the new one together with what it
  handed to a collaborator (a frame for the audio source, a message for the socket).
\<close>

type_synonym int16 = "16 word"
type_synonym byte = "8 word"

subsection \<open>Configuration (config/audio.config.js)\<close>

record audio_config =
  ELEVENLABS_INPUT_SAMPLE_RATE :: nat
  WHATSAPP_SAMPLE_RATE :: nat
  FRAME_SIZE :: nat
  CHUNK_SIZE :: nat

definition config :: audio_config where
  "config = \<lparr> ELEVENLABS_INPUT_SAMPLE_RATE = 16000, WHATSAPP_SAMPLE_RATE = 48000,
              FRAME_SIZE = 480, CHUNK_SIZE = 4000 \<rparr>"

subsection \<open>Playback module (audio/playback)\<close>

text \<open>
  The argument of \<open>audioSource.onData\<close>. The audio source itself is an opaque handle.
\<close>

record audio_frame =
  samples :: "int16 list"
  sampleRate :: nat
  bitsPerSample :: nat
  channelCount :: nat
  numberOfFrames :: nat

type_synonym audio_source = nat
type_synonym timer_id = nat

text \<open>
  \<open>elevenLabsAudioBuffer\<close>, \<open>audioPlaybackTimer\<close> and \<open>elevenLabsAudioCount\<close> are the
  module's variables; \<open>audioSource\<close> is the session's. \<open>intervals\<close> is the event loop's
  table of live \<open>setInterval\<close> timers: the handle of each and the \<open>audioSource\<close> its
  callback captured when \<open>startAudioPlayback\<close> created it. \<open>nextTimer\<close> is the handle
  the next \<open>setInterval\<close> returns. A handle is an object, so it is always truthy.
\<close>

record playback_state =
  audioSource :: "audio_source option"
  elevenLabsAudioBuffer :: "int16 list"
  audioPlaybackTimer :: "timer_id option"
  elevenLabsAudioCount :: nat
  intervals :: "(timer_id \<times> audio_source option) list"
  nextTimer :: timer_id

definition initial_playback :: "audio_source option \<Rightarrow> playback_state" where
  "initial_playback src =
     \<lparr> audioSource = src, elevenLabsAudioBuffer = [], audioPlaybackTimer = None,
       elevenLabsAudioCount = 0, intervals = [], nextTimer = 0 \<rparr>"

text \<open>\<open>clearInterval(h)\<close>: the timer with that handle stops; \<open>clearInterval(null)\<close> does nothing.\<close>

definition clearInterval :: "timer_id option \<Rightarrow> playback_state \<Rightarrow> playback_state" where
  "clearInterval h s =
     (case h of
        None \<Rightarrow> s
      | Some t \<Rightarrow> s\<lparr>intervals := filter (\<lambda>e. fst e \<noteq> t) (intervals s)\<rparr>)"

text \<open>
  \<open>startAudioPlayback\<close>: returns at once when \<open>audioPlaybackTimer\<close> is set; otherwise
  reads the session's \<open>audioSource\<close> and creates the interval timer whose callback keeps it.
\<close>

definition startAudioPlayback :: "playback_state \<Rightarrow> playback_state" where
  "startAudioPlayback s =
     (if audioPlaybackTimer s \<noteq> None then s
      else s\<lparr>intervals := intervals s @ [(nextTimer s, audioSource s)],
             audioPlaybackTimer := Some (nextTimer s),
             nextTimer := Suc (nextTimer s)\<rparr>)"

text \<open>
  The body of the timer callback, for the \<open>audioSource\<close> it captured. The result holds
  the call to \<open>audioSource.onData\<close>, if one was made: the source and the frame.
\<close>

definition timer_callback ::
  "audio_config \<Rightarrow> audio_source option \<Rightarrow> playback_state
     \<Rightarrow> playback_state \<times> (audio_source \<times> audio_frame) option" where
  "timer_callback cfg captured s =
     (case captured of
        None \<Rightarrow> (s, None)
      | Some src \<Rightarrow>
          if length (elevenLabsAudioBuffer s) \<ge> FRAME_SIZE cfg then
            (let frame = take (FRAME_SIZE cfg) (elevenLabsAudioBuffer s)
             in (s\<lparr>elevenLabsAudioBuffer := drop (FRAME_SIZE cfg) (elevenLabsAudioBuffer s)\<rparr>,
                 Some (src, \<lparr> samples = frame, sampleRate = WHATSAPP_SAMPLE_RATE cfg,
                               bitsPerSample = 16, channelCount = 1,
                               numberOfFrames = FRAME_SIZE cfg \<rparr>)))
          else if length (elevenLabsAudioBuffer s) = 0 then
            ((clearInterval (audioPlaybackTimer s) s)\<lparr>audioPlaybackTimer := None\<rparr>, None)
          else (s, None))"

text \<open>
  One tick of the timer with handle \<open>t\<close>: the event loop runs the callback only while
  the timer is live.
\<close>

definition tick ::
  "audio_config \<Rightarrow> timer_id \<Rightarrow> playback_state
     \<Rightarrow> playback_state \<times> (audio_source \<times> audio_frame) option" where
  "tick cfg t s =
     (case map_of (intervals s) t of
        None \<Rightarrow> (s, None)
      | Some captured \<Rightarrow> timer_callback cfg captured s)"

definition addToPlaybackBuffer :: "int16 list \<Rightarrow> playback_state \<Rightarrow> playback_state" where
  "addToPlaybackBuffer xs s = s\<lparr>elevenLabsAudioBuffer := elevenLabsAudioBuffer s @ xs\<rparr>"

definition resetPlayback :: "playback_state \<Rightarrow> playback_state" where
  "resetPlayback s =
     (let s1 = (if audioPlaybackTimer s \<noteq> None
                then (clearInterval (audioPlaybackTimer s) s)\<lparr>audioPlaybackTimer := None\<rparr>
                else s)
      in s1\<lparr>elevenLabsAudioBuffer := [], elevenLabsAudioCount := 0\<rparr>)"

text \<open>
  What can happen to the playback module between two looks at it: a call of one of its
  exported functions, or a tick of a timer.
\<close>

datatype playback_event =
    AddToPlaybackBuffer "int16 list"
  | StartAudioPlayback
  | Tick timer_id

fun playback_step ::
  "audio_config \<Rightarrow> playback_event \<Rightarrow> playback_state
     \<Rightarrow> playback_state \<times> (audio_source \<times> audio_frame) option" where
  "playback_step cfg (AddToPlaybackBuffer xs) s = (addToPlaybackBuffer xs s, None)"
| "playback_step cfg StartAudioPlayback s = (startAudioPlayback s, None)"
| "playback_step cfg (Tick t) s = tick cfg t s"

text \<open>Running a sequence of events; the second component lists the frames emitted, in order.\<close>

fun playback_run ::
  "audio_config \<Rightarrow> playback_event list \<Rightarrow> playback_state
     \<Rightarrow> playback_state \<times> (audio_source \<times> audio_frame) list" where
  "playback_run cfg [] s = (s, [])"
| "playback_run cfg (e # es) s =
     (let (s1, out) = playback_step cfg e s;
          (s2, outs) = playback_run cfg es s1
      in (s2, (case out of None \<Rightarrow> [] | Some f \<Rightarrow> [f]) @ outs))"

text \<open>The samples appended by a sequence of events, in delivery order.\<close>

fun appended :: "playback_event list \<Rightarrow> int16 list" where
  "appended [] = []"
| "appended (AddToPlaybackBuffer xs # es) = xs @ appended es"
| "appended (_ # es) = appended es"

definition emitted_samples :: "(audio_source \<times> audio_frame) list \<Rightarrow> int16 list" where
  "emitted_samples outs = concat (map (\<lambda>e. samples (snd e)) outs)"

subsection \<open>Typed arrays and buffers\<close>

text \<open>
  An \<open>Int16Array\<close> keeps each element in two bytes of its \<open>ArrayBuffer\<close>, low byte first
  (the byte order of the hosts Node runs on).
\<close>

definition int16_bytes :: "int16 \<Rightarrow> byte list" where
  "int16_bytes w = [ucast w, ucast (drop_bit 8 w)]"

definition bytes_of_int16s :: "int16 list \<Rightarrow> byte list" where
  "bytes_of_int16s ws = concat (map int16_bytes ws)"

fun int16s_of_bytes :: "byte list \<Rightarrow> int16 list" where
  "int16s_of_bytes (lo # hi # bs) = (ucast lo OR push_bit 8 (ucast hi)) # int16s_of_bytes bs"
| "int16s_of_bytes _ = []"

datatype js_error = RangeError | TypeError

text \<open>
  \<open>new Int16Array(buffer, byteOffset, length)\<close>, a view of \<open>length\<close> elements on the bytes
  of \<open>buffer\<close> from \<open>byteOffset\<close> on. It throws a \<open>RangeError\<close> when the offset is not a
  multiple of the element size or the view would end beyond the buffer.
\<close>

definition new_Int16Array ::
  "byte list \<Rightarrow> nat \<Rightarrow> nat \<Rightarrow> js_error + int16 list" where
  "new_Int16Array buffer byteOffset n =
     (if byteOffset mod 2 \<noteq> 0 \<or> byteOffset + 2 * n > length buffer then Inl RangeError
      else Inr (int16s_of_bytes (take (2 * n) (drop byteOffset buffer))))"

subsection \<open>Ingest handler (handlers/elevenlabs.handler.js)\<close>

text \<open>
  How a call of \<open>handleElevenLabsAudio\<close> ended: at the early return for a missing audio
  source, at the early return for a payload below one sample, after the append, or in the
  \<open>catch\<close> block, which logs the error and returns.
\<close>

datatype handler_outcome = NoAudioSource | Discarded | Buffered | Caught js_error

text \<open>
  \<open>handleElevenLabsAudio(audioData)\<close> for a \<open>Buffer\<close> argument, which is what
  \<open>handleElevenLabsMessage\<close> passes. \<open>Buffer.alloc\<close> gives the aligned copy an
  \<open>ArrayBuffer\<close> of its own, so its \<open>byteOffset\<close> is 0.
\<close>

definition handleElevenLabsAudio ::
  "byte list \<Rightarrow> playback_state \<Rightarrow> playback_state \<times> handler_outcome" where
  "handleElevenLabsAudio audioData s =
     (case audioSource s of
        None \<Rightarrow> (s, NoAudioSource)
      | Some src \<Rightarrow>
          (let s1 = s\<lparr>elevenLabsAudioCount := elevenLabsAudioCount s + 1\<rparr>;
               pcmData = (if length audioData mod 2 \<noteq> 0
                          then take (length audioData - 1) audioData else audioData)
           in if length pcmData < 2 then (s1, Discarded)
              else (let alignedBuffer = pcmData
                    in case new_Int16Array alignedBuffer 0 (length alignedBuffer div 2) of
                         Inl err \<Rightarrow> (s1, Caught err)
                       | Inr samples48k \<Rightarrow>
                           (startAudioPlayback (addToPlaybackBuffer samples48k s1), Buffered))))"

subsection \<open>Capture path (audio/bridge)\<close>

text \<open>
  The argument of \<open>audioSink.ondata\<close> has the fields of an audio frame. The callback also
  reads \<open>data.samples.buffer\<close>, the bytes of the \<open>ArrayBuffer\<close> behind the samples, which
  the media layer supplies with the frame: the field \<open>samples_buffer\<close>.
\<close>

record sink_data = audio_frame +
  samples_buffer :: "byte list"

record websocket =
  readyState :: nat

definition OPEN :: nat where
  "OPEN = 1"

text \<open>\<open>JSON.stringify({ user_audio_chunk: audioData.toString('base64') })\<close>\<close>

datatype ws_message = User_audio_chunk "byte list"

text \<open>
  \<open>elevenLabsWs\<close>, \<open>audioSendCount\<close>, \<open>audioSink\<close> and \<open>whatsappStream\<close> are the session's
  variables; of the stream only the number of its audio tracks matters here, and of the
  sink whether it is set. \<open>sampleCount\<close> and \<open>audioBuffer\<close> are the variables of
  \<open>setupAudioBridge\<close> that the \<open>ondata\<close> closure keeps.
\<close>

record capture_state =
  whatsappStream :: "nat option"
  elevenLabsWs :: "websocket option"
  audioSendCount :: nat
  audioSink :: bool
  sampleCount :: nat
  audioBuffer :: "byte list"

definition ws_open :: "capture_state \<Rightarrow> bool" where
  "ws_open s = (case elevenLabsWs s of None \<Rightarrow> False | Some ws \<Rightarrow> readyState ws = OPEN)"

text \<open>
  \<open>sendAudioToElevenLabs\<close>. The result holds the message given to \<open>elevenLabsWs.send\<close>, if
  the call was made; an exception of \<open>send\<close> is caught and logged there.
\<close>

definition sendAudioToElevenLabs ::
  "byte list \<Rightarrow> capture_state \<Rightarrow> capture_state \<times> ws_message option" where
  "sendAudioToElevenLabs audioData s =
     (if \<not> ws_open s then (s, None)
      else (s\<lparr>audioSendCount := audioSendCount s + 1\<rparr>, Some (User_audio_chunk audioData)))"

text \<open>
  The decimation loop: \<open>newLength = Math.floor(samples.length / ratio / channels)\<close> and
  \<open>resampledSamples[i] = samples[Math.floor(i * ratio) * channels]\<close>. Reading a typed array
  beyond its end gives \<open>undefined\<close>, which is stored as 0.
\<close>

definition downsample :: "nat \<Rightarrow> nat \<Rightarrow> int16 list \<Rightarrow> int16 list" where
  "downsample ratio channels xs =
     map (\<lambda>i. let srcIndex = (i * ratio) * channels
              in if srcIndex < length xs then xs ! srcIndex else 0)
         [0 ..< length xs div ratio div channels]"

text \<open>
  \<open>resampledSamples\<close> as the callback computes it, with the bytes of
  \<open>resampledSamples.buffer\<close>: those of a fresh array after decimation, those behind
  \<open>data.samples\<close> otherwise. \<open>data.sampleRate || 48000\<close> and \<open>data.channelCount || 1\<close>
  replace a missing or zero field.
\<close>

definition resampledSamples :: "audio_config \<Rightarrow> sink_data \<Rightarrow> int16 list \<times> byte list" where
  "resampledSamples cfg data =
     (let rate = (if sampleRate data = 0 then 48000 else sampleRate data);
          channels = (if channelCount data = 0 then 1 else channelCount data)
      in if rate = 48000 \<and> ELEVENLABS_INPUT_SAMPLE_RATE cfg = 16000 then
           (let ratio = rate div ELEVENLABS_INPUT_SAMPLE_RATE cfg;
                out = downsample ratio channels (samples data)
            in (out, bytes_of_int16s out))
         else (samples data, samples_buffer data))"

definition ondata ::
  "audio_config \<Rightarrow> sink_data \<Rightarrow> capture_state \<Rightarrow> capture_state \<times> ws_message option" where
  "ondata cfg data s =
     (if \<not> ws_open s then (s, None)
      else
        (let s1 = s\<lparr>sampleCount := sampleCount s + 1\<rparr>;
             buffer = snd (resampledSamples cfg data);
             s2 = s1\<lparr>audioBuffer := audioBuffer s1 @ buffer\<rparr>
         in if length (audioBuffer s2) \<ge> CHUNK_SIZE cfg then
              (let (s3, sent) = sendAudioToElevenLabs (audioBuffer s2) s2
               in (s3\<lparr>audioBuffer := []\<rparr>, sent))
            else (s2, None)))"

text \<open>
  \<open>setupAudioBridge\<close>: with a stream that has an audio track it creates the sink and
  installs \<open>ondata\<close> with an empty accumulator; without a track it warns; a missing
  stream makes \<open>getAudioTracks\<close> throw, which the \<open>catch\<close> block logs. The configuration
  is only read for the log line.
\<close>

datatype setup_outcome = SinkInstalled | NoAudioTracks | SetupCaught js_error

definition setupAudioBridge ::
  "audio_config \<Rightarrow> capture_state \<Rightarrow> capture_state \<times> setup_outcome" where
  "setupAudioBridge cfg s =
     (case whatsappStream s of
        None \<Rightarrow> (s, SetupCaught TypeError)
      | Some audioTracks \<Rightarrow>
          if audioTracks > 0
          then (s\<lparr>audioSink := True, sampleCount := 0, audioBuffer := []\<rparr>, SinkInstalled)
          else (s, NoAudioTracks))"

definition initial_capture :: capture_state where
  "initial_capture =
     \<lparr> whatsappStream = None, elevenLabsWs = None, audioSendCount = 0, audioSink = False,
       sampleCount = 0, audioBuffer = [] \<rparr>"

text \<open>
  What happens to the capture path after the bridge is set up: the sink delivers a frame,
  or the streaming socket is replaced or changes its state.
\<close>

datatype capture_event =
    Frame sink_data
  | SetElevenLabsWs "websocket option"

fun capture_step ::
  "audio_config \<Rightarrow> capture_event \<Rightarrow> capture_state \<Rightarrow> capture_state \<times> ws_message option" where
  "capture_step cfg (Frame data) s = ondata cfg data s"
| "capture_step cfg (SetElevenLabsWs ws) s = (s\<lparr>elevenLabsWs := ws\<rparr>, None)"

fun capture_run ::
  "audio_config \<Rightarrow> capture_event list \<Rightarrow> capture_state
     \<Rightarrow> capture_state \<times> ws_message list" where
  "capture_run cfg [] s = (s, [])"
| "capture_run cfg (e # es) s =
     (let (s1, sent) = capture_step cfg e s;
          (s2, sents) = capture_run cfg es s1
      in (s2, (case sent of None \<Rightarrow> [] | Some m \<Rightarrow> [m]) @ sents))"

subsection \<open>Upsampling handler (server-elevenlabs.js)\<close>

definition ELEVENLABS_SAMPLE_RATE :: nat where
  "ELEVENLABS_SAMPLE_RATE = 16000"

definition server_WHATSAPP_SAMPLE_RATE :: nat where
  "server_WHATSAPP_SAMPLE_RATE = 48000"

text \<open>
  \<open>Math.round\<close> rounds to the nearest integer, a half upwards. The interpolated value is
  computed on rationals: with a ratio of 3 the exact value is a multiple of one third,
  and the double the program computes lies close enough to it to round to the same integer.
\<close>

definition Math_round :: "rat \<Rightarrow> int" where
  "Math_round x = \<lfloor>x + 1 / 2\<rfloor>"

definition interpolate :: "nat \<Rightarrow> int16 \<Rightarrow> int16 \<Rightarrow> nat \<Rightarrow> int16" where
  "interpolate ratio sample1 sample2 j =
     (let t = rat_of_nat j / rat_of_nat ratio
      in word_of_int
           (Math_round (rat_of_int (sint sample1) * (1 - t) + rat_of_int (sint sample2) * t)))"

text \<open>
  The two loops over the zero-filled \<open>new Int16Array(samples16k.length * ratio)\<close>:
  \<open>samples48k[idx + j] = Math.round(sample1 * (1 - t) + sample2 * t)\<close> with \<open>idx = i * ratio\<close>,
  for \<open>i < samples16k.length - 1\<close> and \<open>j < ratio\<close>.
\<close>

definition upsample_pair :: "nat \<Rightarrow> int16 list \<Rightarrow> nat \<Rightarrow> int16 list \<Rightarrow> int16 list" where
  "upsample_pair ratio samples16k i samples48k =
     fold (\<lambda>j out. out[i * ratio + j :=
                        interpolate ratio (samples16k ! i) (samples16k ! (i + 1)) j])
          [0 ..< ratio] samples48k"

definition upsample :: "nat \<Rightarrow> int16 list \<Rightarrow> int16 list" where
  "upsample ratio samples16k =
     fold (upsample_pair ratio samples16k) [0 ..< length samples16k - 1]
          (replicate (length samples16k * ratio) 0)"

text \<open>
  \<open>handleElevenLabsAudio\<close> of server-elevenlabs.js, for a \<open>Buffer\<close> with the given bytes
  that starts at \<open>byteOffset\<close> in its \<open>ArrayBuffer\<close>; what the \<open>ArrayBuffer\<close> holds before
  the offset is never read. The view takes \<open>pcmData.length / 2\<close> elements, a fraction
  being cut off; an odd offset makes the constructor throw, and the \<open>catch\<close> block logs
  it. Otherwise the upsampled array goes to \<open>audioSource.onData\<close>.
\<close>

definition server_handleElevenLabsAudio ::
  "audio_source option \<Rightarrow> byte list \<Rightarrow> nat
     \<Rightarrow> js_error + (audio_source \<times> audio_frame) option" where
  "server_handleElevenLabsAudio source pcmData byteOffset =
     (case source of
        None \<Rightarrow> Inr None
      | Some src \<Rightarrow>
          (case new_Int16Array (replicate byteOffset 0 @ pcmData) byteOffset
                  (length pcmData div 2) of
             Inl err \<Rightarrow> Inl err
           | Inr samples16k \<Rightarrow>
               (let ratio = server_WHATSAPP_SAMPLE_RATE div ELEVENLABS_SAMPLE_RATE;
                    samples48k = upsample ratio samples16k
                in Inr (Some (src, \<lparr> samples = samples48k,
                                     sampleRate = server_WHATSAPP_SAMPLE_RATE,
                                     bitsPerSample = 16, channelCount = 1,
                                     numberOfFrames = length samples48k \<rparr>)))))"

text \<open>
  In the states the module reaches, the event loop holds at most one playback timer,
  the one \<open>audioPlaybackTimer\<close> refers to.
\<close>

definition timer_inv :: "playback_state \<Rightarrow> bool" where
  "timer_inv s =
     (case audioPlaybackTimer s of
        None \<Rightarrow> intervals s = []
      | Some h \<Rightarrow> map fst (intervals s) = [h])"

subsection \<open>Properties of the playback module\<close>

lemma timer_inv_initial: "timer_inv (initial_playback src)"
  by (simp add: timer_inv_def initial_playback_def)

lemma timer_inv_start: "timer_inv s \<Longrightarrow> timer_inv (startAudioPlayback s)"
  by (auto simp: timer_inv_def startAudioPlayback_def split: option.splits)

lemma timer_inv_add: "timer_inv s \<Longrightarrow> timer_inv (addToPlaybackBuffer xs s)"
  by (auto simp: timer_inv_def addToPlaybackBuffer_def split: option.splits)

lemma timer_inv_callback: "timer_inv s \<Longrightarrow> timer_inv (fst (timer_callback cfg c s))"
  by (auto simp: timer_inv_def timer_callback_def clearInterval_def Let_def
      split: option.splits)

lemma timer_inv_tick: "timer_inv s \<Longrightarrow> timer_inv (fst (tick cfg t s))"
  by (auto simp: tick_def timer_inv_callback split: option.splits)

lemma timer_inv_step: "timer_inv s \<Longrightarrow> timer_inv (fst (playback_step cfg e s))"
  by (cases e) (simp_all add: timer_inv_start timer_inv_add timer_inv_tick)

lemma timer_inv_run: "timer_inv s \<Longrightarrow> timer_inv (fst (playback_run cfg es s))"
proof (induction es arbitrary: s)
  case Nil
  then show ?case by simp
next
  case (Cons e es)
  from Cons.prems have "timer_inv (fst (playback_step cfg e s))"
    by (rule timer_inv_step)
  from Cons.IH [OF this] show ?case
    by (simp add: split_beta)
qed

text \<open>
  A step neither loses nor invents a sample: what it emits, followed by what it leaves in
  the buffer, is what the buffer held followed by what the step appended.
\<close>

lemma step_conserves:
  "playback_step cfg e s = (s1, out) \<Longrightarrow>
   (case out of None \<Rightarrow> [] | Some f \<Rightarrow> samples (snd f)) @ elevenLabsAudioBuffer s1
     = elevenLabsAudioBuffer s @ appended [e]"
  by (cases e)
     (auto simp: addToPlaybackBuffer_def startAudioPlayback_def tick_def timer_callback_def
        clearInterval_def Let_def split: option.splits if_splits)

lemma run_conserves:
  "playback_run cfg es s = (s', outs) \<Longrightarrow>
   emitted_samples outs @ elevenLabsAudioBuffer s' = elevenLabsAudioBuffer s @ appended es"
proof (induction es arbitrary: s s' outs)
  case Nil
  then show ?case by (simp add: emitted_samples_def)
next
  case (Cons e es)
  obtain s1 out where st: "playback_step cfg e s = (s1, out)"
    by (cases "playback_step cfg e s")
  obtain s2 outs2 where rn: "playback_run cfg es s1 = (s2, outs2)"
    by (cases "playback_run cfg es s1")
  from Cons.prems st rn have s': "s' = s2"
    and outs: "outs = (case out of None \<Rightarrow> [] | Some f \<Rightarrow> [f]) @ outs2"
    by simp_all
  have a: "appended (e # es) = appended [e] @ appended es"
    by (cases e) simp_all
  from Cons.IH [OF rn]
  have ih: "emitted_samples outs2 @ elevenLabsAudioBuffer s2
              = elevenLabsAudioBuffer s1 @ appended es" .
  from step_conserves [OF st]
  have sc: "(case out of None \<Rightarrow> [] | Some f \<Rightarrow> samples (snd f)) @ elevenLabsAudioBuffer s1
              = elevenLabsAudioBuffer s @ appended [e]" .
  have "emitted_samples outs
          = (case out of None \<Rightarrow> [] | Some f \<Rightarrow> samples (snd f)) @ emitted_samples outs2"
    by (simp add: outs emitted_samples_def split: option.splits)
  then show ?case using ih sc a s'
    by (metis append.assoc)
qed

lemma step_frame_size:
  "playback_step cfg e s = (s1, Some f) \<Longrightarrow> length (samples (snd f)) = FRAME_SIZE cfg"
  by (cases e)
     (auto simp: tick_def timer_callback_def Let_def split: option.splits if_splits)

lemma run_frame_size:
  "playback_run cfg es s = (s', outs) \<Longrightarrow> f \<in> set outs
     \<Longrightarrow> length (samples (snd f)) = FRAME_SIZE cfg"
proof (induction es arbitrary: s s' outs)
  case Nil
  then show ?case by simp
next
  case (Cons e es)
  obtain s1 out where st: "playback_step cfg e s = (s1, out)"
    by (cases "playback_step cfg e s")
  obtain s2 outs2 where rn: "playback_run cfg es s1 = (s2, outs2)"
    by (cases "playback_run cfg es s1")
  from Cons.prems st rn
  have outs: "outs = (case out of None \<Rightarrow> [] | Some f \<Rightarrow> [f]) @ outs2"
    by simp
  with Cons.prems(2) consider "out = Some f" | "f \<in> set outs2"
    by (auto split: option.splits)
  then show ?case
  proof cases
    case 1
    with st show ?thesis by (auto dest: step_frame_size)
  next
    case 2
    with Cons.IH [OF rn] show ?thesis by simp
  qed
qed

lemma emitted_take:
  "\<forall>f \<in> set outs. length (samples (snd f)) = n \<Longrightarrow> k \<le> length outs \<Longrightarrow>
   emitted_samples (take k outs) = take (k * n) (emitted_samples outs)"
proof (induction outs arbitrary: k)
  case Nil
  then show ?case by (simp add: emitted_samples_def)
next
  case (Cons f outs)
  show ?case
  proof (cases k)
    case 0
    then show ?thesis by (simp add: emitted_samples_def)
  next
    case (Suc j)
    with Cons.prems have "j \<le> length outs" by simp
    with Cons.IH [of j] Cons.prems(1)
    have "emitted_samples (take j outs) = take (j * n) (emitted_samples outs)" by simp
    moreover from Cons.prems(1) have "length (samples (snd f)) = n" by simp
    ultimately show ?thesis using Suc
      by (simp add: emitted_samples_def)
  qed
qed


text \<open>
  C1. Strict FIFO order of the playback path. Start from the empty module and let any
  sequence of appends, starts and timer ticks happen, with the shipped configuration.
  The samples of the first \<open>k\<close> emitted frames, for every \<open>k\<close> up to the number of frames
  emitted, are exactly the first \<open>k * 480\<close> samples appended, in delivery order; every
  frame has 480 samples; and the emitted samples followed by what is still buffered are
  exactly the appended samples, so each one is consumed once and none overtakes another.
\<close>

theorem playback_fifo_order:
  assumes run: "playback_run config es (initial_playback src) = (s', outs)"
    and k: "k \<le> length outs"
  shows "emitted_samples (take k outs) = take (k * 480) (appended es)
       \<and> length (emitted_samples (take k outs)) = k * 480
       \<and> (\<forall>f \<in> set outs. length (samples (snd f)) = 480)
       \<and> emitted_samples outs @ elevenLabsAudioBuffer s' = appended es"
proof -
  have fs: "\<forall>f \<in> set outs. length (samples (snd f)) = 480"
    using run_frame_size [OF run] by (simp add: config_def)
  have cons: "emitted_samples outs @ elevenLabsAudioBuffer s' = appended es"
    using run_conserves [OF run] by (simp add: initial_playback_def)
  have tk: "emitted_samples (take k outs) = take (k * 480) (emitted_samples outs)"
    using emitted_take [OF fs k] .
  have len: "length (emitted_samples outs) = length outs * 480"
    using fs by (induction outs) (simp_all add: emitted_samples_def)
  with k have le: "k * 480 \<le> length (emitted_samples outs)" by simp
  have "take (k * 480) (appended es)
          = take (k * 480) (emitted_samples outs @ elevenLabsAudioBuffer s')"
    by (simp only: cons)
  also from le have "\<dots> = take (k * 480) (emitted_samples outs)" by simp
  finally have e1: "emitted_samples (take k outs) = take (k * 480) (appended es)"
    using tk by simp
  from tk le have "length (emitted_samples (take k outs)) = k * 480" by simp
  with e1 fs cons show ?thesis by blast
qed

text \<open>
  The theorem at a concrete run: 481 samples are appended, the timer is started and
  ticks twice; one frame holding the first 480 samples comes out.
\<close>

theorem playback_fifo_order_witness:
  "playback_run config
     [AddToPlaybackBuffer (replicate 480 1 @ [2]), StartAudioPlayback, Tick 0, Tick 0]
     (initial_playback (Some 0))
   = (\<lparr> audioSource = Some 0, elevenLabsAudioBuffer = [2], audioPlaybackTimer = Some 0,
         elevenLabsAudioCount = 0, intervals = [(0, Some 0)], nextTimer = 1 \<rparr>,
      [(0, \<lparr> samples = replicate 480 1, sampleRate = 48000, bitsPerSample = 16,
              channelCount = 1, numberOfFrames = 480 \<rparr>)])
   \<and> emitted_samples (take 1
        [(0::nat, \<lparr> samples = replicate 480 (1::int16), sampleRate = 48000, bitsPerSample = 16,
              channelCount = 1, numberOfFrames = 480 \<rparr>)])
     = take (1 * 480) (appended
         [AddToPlaybackBuffer (replicate 480 1 @ [2]), StartAudioPlayback, Tick 0, Tick 0])"
proof -
  have r: "playback_run config
     [AddToPlaybackBuffer (replicate 480 1 @ [2]), StartAudioPlayback, Tick 0, Tick 0]
     (initial_playback (Some 0))
   = (\<lparr> audioSource = Some 0, elevenLabsAudioBuffer = [2], audioPlaybackTimer = Some 0,
         elevenLabsAudioCount = 0, intervals = [(0, Some 0)], nextTimer = 1 \<rparr>,
      [(0, \<lparr> samples = replicate 480 1, sampleRate = 48000, bitsPerSample = 16,
              channelCount = 1, numberOfFrames = 480 \<rparr>)])"
    by (simp add: config_def initial_playback_def addToPlaybackBuffer_def
        startAudioPlayback_def tick_def timer_callback_def)
  have k: "(1::nat) \<le> length [(0::nat, \<lparr> samples = replicate 480 (1::int16), sampleRate = 48000, bitsPerSample = 16,
              channelCount = 1, numberOfFrames = 480 \<rparr>)]" by simp
  from playback_fifo_order [OF r k] r show ?thesis by blast
qed

text \<open>
  C2, as stated, fails where it says that the engine goes idle whenever there is
  too little data: after one sample is appended and the timer is started, a tick finds
  fewer than 480 samples, emits nothing, and the timer is still set and still live.
\<close>

theorem tick_short_buffer_stays_running:
  "length (elevenLabsAudioBuffer
     (fst (playback_run config [AddToPlaybackBuffer [1], StartAudioPlayback]
        (initial_playback (Some 0))))) < 480
   \<and> tick config 0
       (fst (playback_run config [AddToPlaybackBuffer [1], StartAudioPlayback]
          (initial_playback (Some 0))))
     = (\<lparr> audioSource = Some 0, elevenLabsAudioBuffer = [1], audioPlaybackTimer = Some 0,
          elevenLabsAudioCount = 0, intervals = [(0, Some 0)], nextTimer = 1 \<rparr>, None)"
  by (simp add: config_def initial_playback_def addToPlaybackBuffer_def
      startAudioPlayback_def tick_def timer_callback_def)

text \<open>
  C2, amended. On every tick the Pacing Engine either emits one frame of exactly 480
  samples, the head of the buffer, which it removes from the buffer, or emits nothing
  and leaves the buffer as it was: no padding, no sample repeated. With fewer than 480
  samples nothing is emitted. A live timer with an audio source emits whenever 480
  samples are there, goes idle (variable cleared, timer stopped) when the buffer is
  empty, and with 1 to 479 samples buffered changes nothing and keeps running.
\<close>

theorem tick_whole_frame_or_nothing:
  "(case snd (tick config t s) of
      None \<Rightarrow> elevenLabsAudioBuffer (fst (tick config t s)) = elevenLabsAudioBuffer s
    | Some (src, f) \<Rightarrow>
        480 \<le> length (elevenLabsAudioBuffer s)
        \<and> length (samples f) = 480
        \<and> samples f = take 480 (elevenLabsAudioBuffer s)
        \<and> elevenLabsAudioBuffer (fst (tick config t s)) = drop 480 (elevenLabsAudioBuffer s))
   \<and> (length (elevenLabsAudioBuffer s) < 480 \<longrightarrow> snd (tick config t s) = None)
   \<and> (map_of (intervals s) t = Some (Some a) \<and> 480 \<le> length (elevenLabsAudioBuffer s)
        \<longrightarrow> snd (tick config t s) \<noteq> None)
   \<and> (map_of (intervals s) t = Some (Some a) \<and> elevenLabsAudioBuffer s = []
        \<longrightarrow> audioPlaybackTimer (fst (tick config t s)) = None
          \<and> intervals (fst (tick config t s))
              = intervals (clearInterval (audioPlaybackTimer s) s))
   \<and> (0 < length (elevenLabsAudioBuffer s) \<and> length (elevenLabsAudioBuffer s) < 480
        \<longrightarrow> tick config t s = (s, None))"
  by (auto simp: config_def tick_def timer_callback_def Let_def clearInterval_def
      split: option.splits)

text \<open>
  The theorem at three states of a started engine: one sample buffered, where the tick
  emits nothing; the buffer empty, where the tick stops the timer; a full frame
  buffered, where the tick emits.
\<close>

theorem tick_whole_frame_or_nothing_witness:
  "map_of (intervals (fst (playback_run config [AddToPlaybackBuffer [1], StartAudioPlayback]
        (initial_playback (Some 0))))) 0 = Some (Some 0)
   \<and> 0 < length (elevenLabsAudioBuffer (fst (playback_run config
         [AddToPlaybackBuffer [1], StartAudioPlayback] (initial_playback (Some 0)))))
   \<and> length (elevenLabsAudioBuffer (fst (playback_run config
         [AddToPlaybackBuffer [1], StartAudioPlayback] (initial_playback (Some 0))))) < 480
   \<and> snd (tick config 0 (fst (playback_run config [AddToPlaybackBuffer [1], StartAudioPlayback]
        (initial_playback (Some 0))))) = None
   \<and> map_of (intervals (startAudioPlayback (initial_playback (Some 0)))) 0 = Some (Some 0)
   \<and> elevenLabsAudioBuffer (startAudioPlayback (initial_playback (Some 0))) = []
   \<and> audioPlaybackTimer (fst (tick config 0 (startAudioPlayback (initial_playback (Some 0)))))
       = None
   \<and> intervals (fst (tick config 0 (startAudioPlayback (initial_playback (Some 0))))) = []
   \<and> map_of (intervals (startAudioPlayback (addToPlaybackBuffer (replicate 480 7)
         (initial_playback (Some 0))))) 0 = Some (Some 0)
   \<and> 480 \<le> length (elevenLabsAudioBuffer (startAudioPlayback (addToPlaybackBuffer
         (replicate 480 7) (initial_playback (Some 0)))))
   \<and> snd (tick config 0 (startAudioPlayback (addToPlaybackBuffer (replicate 480 7)
         (initial_playback (Some 0))))) \<noteq> None"
proof -
  let ?r = "fst (playback_run config [AddToPlaybackBuffer [1], StartAudioPlayback]
        (initial_playback (Some 0)))"
  let ?e = "startAudioPlayback (initial_playback (Some 0))"
  let ?f = "startAudioPlayback (addToPlaybackBuffer (replicate 480 7) (initial_playback (Some 0)))"
  have r: "?r = \<lparr> audioSource = Some 0, elevenLabsAudioBuffer = [1],
        audioPlaybackTimer = Some 0, elevenLabsAudioCount = 0, intervals = [(0, Some 0)],
        nextTimer = 1 \<rparr>"
    by (simp add: initial_playback_def addToPlaybackBuffer_def startAudioPlayback_def)
  have e: "?e = \<lparr> audioSource = Some 0, elevenLabsAudioBuffer = [],
        audioPlaybackTimer = Some 0, elevenLabsAudioCount = 0, intervals = [(0, Some 0)],
        nextTimer = 1 \<rparr>"
    by (simp add: initial_playback_def startAudioPlayback_def)
  have f: "?f = \<lparr> audioSource = Some 0, elevenLabsAudioBuffer = replicate 480 7,
        audioPlaybackTimer = Some 0, elevenLabsAudioCount = 0, intervals = [(0, Some 0)],
        nextTimer = 1 \<rparr>"
    by (simp add: initial_playback_def addToPlaybackBuffer_def startAudioPlayback_def)
  have r1: "map_of (intervals ?r) 0 = Some (Some 0)" unfolding r by simp
  have r2: "0 < length (elevenLabsAudioBuffer ?r)" unfolding r by simp
  have r3: "length (elevenLabsAudioBuffer ?r) < 480" unfolding r by simp
  have e1: "map_of (intervals ?e) 0 = Some (Some 0)" by (simp add: e)
  have e2: "elevenLabsAudioBuffer ?e = []" by (simp add: e)
  have e3: "intervals (clearInterval (audioPlaybackTimer ?e) ?e) = []"
    by (simp add: e clearInterval_def)
  have f1: "map_of (intervals ?f) 0 = Some (Some 0)" by (simp add: f)
  have f2: "480 \<le> length (elevenLabsAudioBuffer ?f)" by (simp add: f)
  from tick_whole_frame_or_nothing [of 0 ?r 0] r3
  have a: "snd (tick config 0 ?r) = None" by blast
  from tick_whole_frame_or_nothing [of 0 ?e 0] e1 e2
  have b: "audioPlaybackTimer (fst (tick config 0 ?e)) = None
           \<and> intervals (fst (tick config 0 ?e)) = intervals (clearInterval (audioPlaybackTimer ?e) ?e)"
    by blast
  with e3 have b': "audioPlaybackTimer (fst (tick config 0 ?e)) = None
           \<and> intervals (fst (tick config 0 ?e)) = []"
    by simp
  from tick_whole_frame_or_nothing [of 0 ?f 0] f1 f2
  have c: "snd (tick config 0 ?f) \<noteq> None" by blast
  from r1 r2 r3 a e1 e2 b' f1 f2 c show ?thesis by blast
qed

text \<open>
  C9. Starting the Pacing Engine is idempotent: a second call of the start operation
  right after the first leaves the state exactly as the first did, creates no timer, and
  every later sequence of events yields the same states and the same emissions as after a
  single start. In every state the module reaches from its initial one by appends, starts
  and ticks, there is exactly one live timer after the two starts.
\<close>

theorem startAudioPlayback_idempotent:
  "startAudioPlayback (startAudioPlayback s) = startAudioPlayback s
   \<and> intervals (startAudioPlayback (startAudioPlayback s)) = intervals (startAudioPlayback s)
   \<and> playback_run cfg es (startAudioPlayback (startAudioPlayback s))
       = playback_run cfg es (startAudioPlayback s)
   \<and> length (intervals (startAudioPlayback (startAudioPlayback
         (fst (playback_run cfg es' (initial_playback src)))))) = 1"
proof -
  let ?r = "fst (playback_run cfg es' (initial_playback src))"
  have e: "startAudioPlayback (startAudioPlayback s) = startAudioPlayback s" for s
    by (simp add: startAudioPlayback_def)
  have "timer_inv ?r"
    by (rule timer_inv_run [OF timer_inv_initial])
  then have "timer_inv (startAudioPlayback ?r)" by (rule timer_inv_start)
  moreover have "audioPlaybackTimer (startAudioPlayback ?r) \<noteq> None"
    by (simp add: startAudioPlayback_def)
  ultimately have "\<exists>h. map fst (intervals (startAudioPlayback ?r)) = [h]"
    by (auto simp: timer_inv_def split: option.splits)
  then have "length (intervals (startAudioPlayback ?r)) = 1"
    by (metis length_map length_Cons list.size(3) One_nat_def)
  with e show ?thesis by simp
qed

text \<open>The theorem at the empty module: after two starts there is the one timer 0.\<close>

theorem startAudioPlayback_idempotent_witness:
  "startAudioPlayback (startAudioPlayback (initial_playback (Some 0)))
       = \<lparr> audioSource = Some 0, elevenLabsAudioBuffer = [], audioPlaybackTimer = Some 0,
           elevenLabsAudioCount = 0, intervals = [(0, Some 0)], nextTimer = 1 \<rparr>
   \<and> length (intervals (startAudioPlayback (startAudioPlayback
         (fst (playback_run config [] (initial_playback (Some 0))))))) = 1"
proof -
  note t = startAudioPlayback_idempotent [of "initial_playback (Some 0)" config "[]" "[]" "Some 0"]
  have s: "startAudioPlayback (initial_playback (Some 0))
       = \<lparr> audioSource = Some 0, elevenLabsAudioBuffer = [], audioPlaybackTimer = Some 0,
           elevenLabsAudioCount = 0, intervals = [(0, Some 0)], nextTimer = 1 \<rparr>"
    by (simp add: startAudioPlayback_def initial_playback_def)
  from t have "startAudioPlayback (startAudioPlayback (initial_playback (Some 0)))
       = startAudioPlayback (initial_playback (Some 0))"
    by blast
  with s have a: "startAudioPlayback (startAudioPlayback (initial_playback (Some 0)))
       = \<lparr> audioSource = Some 0, elevenLabsAudioBuffer = [], audioPlaybackTimer = Some 0,
           elevenLabsAudioCount = 0, intervals = [(0, Some 0)], nextTimer = 1 \<rparr>"
    by simp
  from t
  have b: "length (intervals (startAudioPlayback (startAudioPlayback
         (fst (playback_run config [] (initial_playback (Some 0))))))) = 1"
    by blast
  from a b show ?thesis by blast
qed

text \<open>
  C10. A tick cancels the playback timer only when the buffer is exactly empty. A tick
  that finds more than zero but fewer than 480 samples emits nothing and leaves the whole
  state as it was, timer included; whenever the buffer is not empty, a tick leaves the
  timer variable and the table of live timers unchanged. A reset clears the timer
  variable and the buffer, and in every state the module reaches it leaves no timer live.
\<close>

theorem tick_cancels_only_when_empty:
  "(0 < length (elevenLabsAudioBuffer s) \<and> length (elevenLabsAudioBuffer s) < 480
      \<longrightarrow> tick config t s = (s, None))
   \<and> (elevenLabsAudioBuffer s \<noteq> []
      \<longrightarrow> audioPlaybackTimer (fst (tick config t s)) = audioPlaybackTimer s
        \<and> intervals (fst (tick config t s)) = intervals s)
   \<and> audioPlaybackTimer (resetPlayback s) = None
   \<and> elevenLabsAudioBuffer (resetPlayback s) = []
   \<and> intervals (resetPlayback (fst (playback_run cfg es (initial_playback src)))) = []"
proof -
  have "timer_inv (fst (playback_run cfg es (initial_playback src)))"
    by (rule timer_inv_run [OF timer_inv_initial])
  then have "intervals (resetPlayback (fst (playback_run cfg es (initial_playback src)))) = []"
    by (auto simp: clearInterval_def resetPlayback_def timer_inv_def split: option.splits)
  then show ?thesis
    by (auto simp: config_def tick_def timer_callback_def Let_def clearInterval_def
        resetPlayback_def split: option.splits)
qed

text \<open>
  The theorem at a started engine with three samples buffered: the tick changes
  nothing, and a reset stops the timer.
\<close>

theorem tick_cancels_only_when_empty_witness:
  "0 < length (elevenLabsAudioBuffer (startAudioPlayback (addToPlaybackBuffer [1, 2, 3]
        (initial_playback (Some 0)))))
   \<and> length (elevenLabsAudioBuffer (startAudioPlayback (addToPlaybackBuffer [1, 2, 3]
        (initial_playback (Some 0))))) < 480
   \<and> elevenLabsAudioBuffer (startAudioPlayback (addToPlaybackBuffer [1, 2, 3]
        (initial_playback (Some 0)))) \<noteq> []
   \<and> tick config 0 (startAudioPlayback (addToPlaybackBuffer [1, 2, 3] (initial_playback (Some 0))))
       = (\<lparr> audioSource = Some 0, elevenLabsAudioBuffer = [1, 2, 3],
            audioPlaybackTimer = Some 0, elevenLabsAudioCount = 0, intervals = [(0, Some 0)],
            nextTimer = 1 \<rparr>, None)
   \<and> intervals (resetPlayback (fst (playback_run config
        [AddToPlaybackBuffer [1, 2, 3], StartAudioPlayback] (initial_playback (Some 0))))) = []"
proof -
  let ?s = "startAudioPlayback (addToPlaybackBuffer [1, 2, 3] (initial_playback (Some 0)))"
  note t = tick_cancels_only_when_empty
    [of ?s 0 config "[AddToPlaybackBuffer [1, 2, 3], StartAudioPlayback]" "Some 0"]
  have s: "?s = \<lparr> audioSource = Some 0, elevenLabsAudioBuffer = [1, 2, 3],
            audioPlaybackTimer = Some 0, elevenLabsAudioCount = 0, intervals = [(0, Some 0)],
            nextTimer = 1 \<rparr>"
    by (simp add: initial_playback_def addToPlaybackBuffer_def startAudioPlayback_def)
  have h1: "0 < length (elevenLabsAudioBuffer ?s)" by (simp add: s)
  have h2: "length (elevenLabsAudioBuffer ?s) < 480" by (simp add: s)
  have h3: "elevenLabsAudioBuffer ?s \<noteq> []" by (simp add: s)
  from t h1 h2 have "tick config 0 ?s = (?s, None)" by blast
  then have a: "tick config 0 ?s = (\<lparr> audioSource = Some 0, elevenLabsAudioBuffer = [1, 2, 3],
            audioPlaybackTimer = Some 0, elevenLabsAudioCount = 0, intervals = [(0, Some 0)],
            nextTimer = 1 \<rparr>, None)"
    by (simp add: s)
  from t have b: "intervals (resetPlayback (fst (playback_run config
        [AddToPlaybackBuffer [1, 2, 3], StartAudioPlayback] (initial_playback (Some 0))))) = []"
    by blast
  from h1 h2 h3 a b show ?thesis by blast
qed

subsection \<open>Properties of the capture path and of the ingest handler\<close>

lemma ondata_acc_bound:
  "length (audioBuffer s) < CHUNK_SIZE cfg \<Longrightarrow>
   length (audioBuffer (fst (ondata cfg d s))) < CHUNK_SIZE cfg"
  by (auto simp: ondata_def sendAudioToElevenLabs_def Let_def split: if_splits)

lemma capture_step_acc_bound:
  "length (audioBuffer s) < CHUNK_SIZE cfg \<Longrightarrow>
   length (audioBuffer (fst (capture_step cfg e s))) < CHUNK_SIZE cfg"
  by (cases e) (simp_all add: ondata_acc_bound)

lemma capture_run_acc_bound:
  "length (audioBuffer s) < CHUNK_SIZE cfg \<Longrightarrow>
   length (audioBuffer (fst (capture_run cfg es s))) < CHUNK_SIZE cfg"
proof (induction es arbitrary: s)
  case Nil
  then show ?case by simp
next
  case (Cons e es)
  from Cons.prems have "length (audioBuffer (fst (capture_step cfg e s))) < CHUNK_SIZE cfg"
    by (rule capture_step_acc_bound)
  from Cons.IH [OF this] show ?case
    by (simp add: split_beta)
qed

lemma downsample_length:
  "length (downsample ratio channels xs) = length xs div ratio div channels"
  by (simp add: downsample_def)

lemma downsample_index:
  assumes i: "i < length xs div ratio div channels"
  shows "i * ratio * channels < length xs"
proof -
  from i have c: "0 < channels" and r: "0 < ratio"
    by (auto intro: gr0I)
  from i have "Suc i \<le> length xs div ratio div channels" by simp
  with c have "Suc i * channels \<le> length xs div ratio"
    by (simp only: less_eq_div_iff_mult_less_eq)
  with r have "Suc i * channels * ratio \<le> length xs"
    by (simp only: less_eq_div_iff_mult_less_eq)
  moreover from c r have "0 < channels * ratio" by simp
  then have "i * (channels * ratio) < Suc i * (channels * ratio)" by simp
  then have "i * ratio * channels < Suc i * channels * ratio"
    by (simp only: mult.assoc mult.commute [of ratio channels])
  ultimately show ?thesis by linarith
qed

lemma downsample_nth:
  assumes i: "i < length xs div ratio div channels"
  shows "downsample ratio channels xs ! i = xs ! (i * ratio * channels)"
  using i downsample_index [OF i] by (simp add: downsample_def)

lemma int16s_of_bytes_length: "length (int16s_of_bytes bs) = length bs div 2"
  by (induction bs rule: int16s_of_bytes.induct) simp_all

lemma int16s_of_bytes_even_part:
  "int16s_of_bytes (take (2 * (length bs div 2)) bs) = int16s_of_bytes bs"
  by (induction bs rule: int16s_of_bytes.induct) simp_all

lemma int16s_of_bytes_odd:
  assumes "length bs mod 2 \<noteq> 0"
  shows "int16s_of_bytes (take (length bs - 1) bs) = int16s_of_bytes bs"
proof -
  from assms have "length bs - 1 = 2 * (length bs div 2)" by presburger
  then show ?thesis by (simp only: int16s_of_bytes_even_part)
qed

subsection \<open>Properties of the upsampling loops\<close>

text \<open>
  A loop that stores \<open>g j\<close> at position \<open>b + j\<close> for each \<open>j\<close> below \<open>n\<close> keeps the
  length of the array and changes exactly the positions from \<open>b\<close> to \<open>b + n\<close>.
\<close>

lemma fold_update_length:
  "length (fold (\<lambda>j out. out[b + j := g j]) [0..<n] out) = length out"
  by (induction n) simp_all

lemma fold_update_nth:
  "fold (\<lambda>j out. out[b + j := g j]) [0..<n] out ! k
     = (if b \<le> k \<and> k < b + n \<and> k < length out then g (k - b) else out ! k)"
proof (induction n)
  case 0
  then show ?case by auto
next
  case (Suc n)
  show ?case
  proof (cases "k = b + n")
    case True
    then show ?thesis using Suc
      by (cases "k < length out") (simp_all add: fold_update_length list_update_beyond)
  next
    case False
    then show ?thesis using Suc by (auto simp: fold_update_length)
  qed
qed

lemma upsample_pair_length: "length (upsample_pair r xs i out) = length out"
  by (simp add: upsample_pair_def fold_update_length)

lemma upsample_pair_nth:
  "upsample_pair r xs i out ! k
     = (if i * r \<le> k \<and> k < i * r + r \<and> k < length out
        then interpolate r (xs ! i) (xs ! (i + 1)) (k - i * r) else out ! k)"
  unfolding upsample_pair_def by (rule fold_update_nth)

lemma upsample_loop_length: "length (fold (upsample_pair r xs) [0..<m] out) = length out"
  by (induction m) (simp_all add: upsample_pair_length)

lemma upsample_loop_nth:
  assumes r: "0 < r"
  shows "fold (upsample_pair r xs) [0..<m] out ! k
     = (if k < m * r \<and> k < length out
        then interpolate r (xs ! (k div r)) (xs ! (k div r + 1)) (k mod r) else out ! k)"
proof (induction m)
  case 0
  then show ?case by simp
next
  case (Suc m)
  show ?case
  proof (cases "m * r \<le> k \<and> k < m * r + r")
    case True
    then have d: "k div r = m" and md: "k mod r = k - m * r"
      using r
       apply (metis add.commute div_nat_eqI mult.commute mult_Suc)
      by (metis True add.commute div_nat_eqI minus_mult_div_eq_mod mult.commute mult_Suc)
    from True Suc show ?thesis
      by (simp add: upsample_pair_nth upsample_loop_length d md)
  next
    case False
    then show ?thesis using Suc
      by (auto simp: upsample_pair_nth upsample_loop_length)
  qed
qed

lemma upsample_length: "length (upsample r xs) = length xs * r"
  by (simp add: upsample_def upsample_loop_length)

lemma upsample_nth:
  assumes r: "0 < r" and k: "k < length xs * r"
  shows "upsample r xs ! k
     = (if k < (length xs - 1) * r
        then interpolate r (xs ! (k div r)) (xs ! (k div r + 1)) (k mod r) else 0)"
  using k by (simp add: upsample_def upsample_loop_nth [OF r])

subsection \<open>Claims about the capture path\<close>

text \<open>
  C3. The Capture Accumulator stays below the chunk threshold, and a crossing flushes it.
  If the accumulator holds fewer bytes than the threshold, it still does after any
  sequence of frames and socket changes; with the shipped threshold of 4000 this holds
  from the moment the bridge is set up. While the socket is open, an append that brings
  the accumulator to the threshold or beyond makes one send of the whole accumulated
  buffer and empties the accumulator; a smaller append only accumulates. With a
  threshold of 4 bytes and three frames of one sample (2 bytes) each: nothing is sent
  after the first, the first two samples are sent as one chunk after the second, and
  after the third the accumulator holds the third sample alone, one chunk sent in all.
\<close>

theorem capture_accumulator_flush:
  "(length (audioBuffer s) < CHUNK_SIZE cfg
      \<longrightarrow> length (audioBuffer (fst (capture_run cfg es s))) < CHUNK_SIZE cfg)
   \<and> length (audioBuffer (fst (capture_run config es (fst (setupAudioBridge config
         (s\<lparr>whatsappStream := Some (Suc n)\<rparr>)))))) < 4000
   \<and> (ws_open s \<and> CHUNK_SIZE cfg \<le> length (audioBuffer s @ snd (resampledSamples cfg d))
      \<longrightarrow> ondata cfg d s
          = (s\<lparr>sampleCount := sampleCount s + 1, audioSendCount := audioSendCount s + 1,
                audioBuffer := []\<rparr>,
             Some (User_audio_chunk (audioBuffer s @ snd (resampledSamples cfg d)))))
   \<and> (ws_open s \<and> length (audioBuffer s @ snd (resampledSamples cfg d)) < CHUNK_SIZE cfg
      \<longrightarrow> ondata cfg d s
          = (s\<lparr>sampleCount := sampleCount s + 1,
                audioBuffer := audioBuffer s @ snd (resampledSamples cfg d)\<rparr>, None))
   \<and> capture_run (config\<lparr>CHUNK_SIZE := 4\<rparr>)
        [Frame \<lparr>samples = [1, 0, 0], sampleRate = 48000, bitsPerSample = 16, channelCount = 1,
                numberOfFrames = 3, samples_buffer = [1, 0, 0, 0, 0, 0]\<rparr>]
        (initial_capture\<lparr>elevenLabsWs := Some \<lparr>readyState = OPEN\<rparr>\<rparr>)
      = (initial_capture\<lparr>elevenLabsWs := Some \<lparr>readyState = OPEN\<rparr>, sampleCount := 1,
                          audioBuffer := [1, 0]\<rparr>, [])
   \<and> capture_run (config\<lparr>CHUNK_SIZE := 4\<rparr>)
        [Frame \<lparr>samples = [1, 0, 0], sampleRate = 48000, bitsPerSample = 16, channelCount = 1,
                numberOfFrames = 3, samples_buffer = [1, 0, 0, 0, 0, 0]\<rparr>,
         Frame \<lparr>samples = [2, 0, 0], sampleRate = 48000, bitsPerSample = 16, channelCount = 1,
                numberOfFrames = 3, samples_buffer = [2, 0, 0, 0, 0, 0]\<rparr>]
        (initial_capture\<lparr>elevenLabsWs := Some \<lparr>readyState = OPEN\<rparr>\<rparr>)
      = (initial_capture\<lparr>elevenLabsWs := Some \<lparr>readyState = OPEN\<rparr>, sampleCount := 2,
                          audioSendCount := 1, audioBuffer := []\<rparr>,
         [User_audio_chunk [1, 0, 2, 0]])
   \<and> capture_run (config\<lparr>CHUNK_SIZE := 4\<rparr>)
        [Frame \<lparr>samples = [1, 0, 0], sampleRate = 48000, bitsPerSample = 16, channelCount = 1,
                numberOfFrames = 3, samples_buffer = [1, 0, 0, 0, 0, 0]\<rparr>,
         Frame \<lparr>samples = [2, 0, 0], sampleRate = 48000, bitsPerSample = 16, channelCount = 1,
                numberOfFrames = 3, samples_buffer = [2, 0, 0, 0, 0, 0]\<rparr>,
         Frame \<lparr>samples = [3, 0, 0], sampleRate = 48000, bitsPerSample = 16, channelCount = 1,
                numberOfFrames = 3, samples_buffer = [3, 0, 0, 0, 0, 0]\<rparr>]
        (initial_capture\<lparr>elevenLabsWs := Some \<lparr>readyState = OPEN\<rparr>\<rparr>)
      = (initial_capture\<lparr>elevenLabsWs := Some \<lparr>readyState = OPEN\<rparr>, sampleCount := 3,
                          audioSendCount := 1, audioBuffer := [3, 0]\<rparr>,
         [User_audio_chunk [1, 0, 2, 0]])"
proof -
  have a: "length (audioBuffer s) < CHUNK_SIZE cfg
      \<longrightarrow> length (audioBuffer (fst (capture_run cfg es s))) < CHUNK_SIZE cfg"
    by (simp add: capture_run_acc_bound)
  have "length (audioBuffer (fst (setupAudioBridge config (s\<lparr>whatsappStream := Some (Suc n)\<rparr>))))
          < CHUNK_SIZE config"
    by (simp add: setupAudioBridge_def config_def)
  from capture_run_acc_bound [OF this]
  have b: "length (audioBuffer (fst (capture_run config es (fst (setupAudioBridge config
         (s\<lparr>whatsappStream := Some (Suc n)\<rparr>)))))) < 4000"
    by (simp add: config_def)
  have c: "ws_open s \<and> CHUNK_SIZE cfg \<le> length (audioBuffer s @ snd (resampledSamples cfg d))
      \<longrightarrow> ondata cfg d s
          = (s\<lparr>sampleCount := sampleCount s + 1, audioSendCount := audioSendCount s + 1,
                audioBuffer := []\<rparr>,
             Some (User_audio_chunk (audioBuffer s @ snd (resampledSamples cfg d))))"
    by (simp add: ondata_def sendAudioToElevenLabs_def ws_open_def Let_def)
  have d: "ws_open s \<and> length (audioBuffer s @ snd (resampledSamples cfg d)) < CHUNK_SIZE cfg
      \<longrightarrow> ondata cfg d s
          = (s\<lparr>sampleCount := sampleCount s + 1,
                audioBuffer := audioBuffer s @ snd (resampledSamples cfg d)\<rparr>, None)"
    by (simp add: ondata_def Let_def)
  have f1: "snd (resampledSamples (config\<lparr>CHUNK_SIZE := 4\<rparr>)
        \<lparr>samples = [x, 0, 0], sampleRate = 48000, bitsPerSample = 16, channelCount = Suc 0,
                numberOfFrames = 3, samples_buffer = bb\<rparr>) = int16_bytes x" for x bb
    by (simp add: resampledSamples_def config_def downsample_def bytes_of_int16s_def)
  have b1: "int16_bytes 1 = [1, 0]" and b2: "int16_bytes 2 = [2, 0]" and b3: "int16_bytes 3 = [3, 0]"
    by (simp_all add: int16_bytes_def)
  have e1: "capture_run (config\<lparr>CHUNK_SIZE := 4\<rparr>)
        [Frame \<lparr>samples = [1, 0, 0], sampleRate = 48000, bitsPerSample = 16, channelCount = 1,
                numberOfFrames = 3, samples_buffer = [1, 0, 0, 0, 0, 0]\<rparr>]
        (initial_capture\<lparr>elevenLabsWs := Some \<lparr>readyState = OPEN\<rparr>\<rparr>)
      = (initial_capture\<lparr>elevenLabsWs := Some \<lparr>readyState = OPEN\<rparr>, sampleCount := 1,
                          audioBuffer := [1, 0]\<rparr>, [])"
    by (simp add: ondata_def sendAudioToElevenLabs_def ws_open_def Let_def f1 b1 b2 b3
        initial_capture_def)
  have e2: "capture_run (config\<lparr>CHUNK_SIZE := 4\<rparr>)
        [Frame \<lparr>samples = [1, 0, 0], sampleRate = 48000, bitsPerSample = 16, channelCount = 1,
                numberOfFrames = 3, samples_buffer = [1, 0, 0, 0, 0, 0]\<rparr>,
         Frame \<lparr>samples = [2, 0, 0], sampleRate = 48000, bitsPerSample = 16, channelCount = 1,
                numberOfFrames = 3, samples_buffer = [2, 0, 0, 0, 0, 0]\<rparr>]
        (initial_capture\<lparr>elevenLabsWs := Some \<lparr>readyState = OPEN\<rparr>\<rparr>)
      = (initial_capture\<lparr>elevenLabsWs := Some \<lparr>readyState = OPEN\<rparr>, sampleCount := 2,
                          audioSendCount := 1, audioBuffer := []\<rparr>,
         [User_audio_chunk [1, 0, 2, 0]])"
    by (simp add: ondata_def sendAudioToElevenLabs_def ws_open_def Let_def f1 b1 b2 b3
        initial_capture_def)
  have e3: "capture_run (config\<lparr>CHUNK_SIZE := 4\<rparr>)
        [Frame \<lparr>samples = [1, 0, 0], sampleRate = 48000, bitsPerSample = 16, channelCount = 1,
                numberOfFrames = 3, samples_buffer = [1, 0, 0, 0, 0, 0]\<rparr>,
         Frame \<lparr>samples = [2, 0, 0], sampleRate = 48000, bitsPerSample = 16, channelCount = 1,
                numberOfFrames = 3, samples_buffer = [2, 0, 0, 0, 0, 0]\<rparr>,
         Frame \<lparr>samples = [3, 0, 0], sampleRate = 48000, bitsPerSample = 16, channelCount = 1,
                numberOfFrames = 3, samples_buffer = [3, 0, 0, 0, 0, 0]\<rparr>]
        (initial_capture\<lparr>elevenLabsWs := Some \<lparr>readyState = OPEN\<rparr>\<rparr>)
      = (initial_capture\<lparr>elevenLabsWs := Some \<lparr>readyState = OPEN\<rparr>, sampleCount := 3,
                          audioSendCount := 1, audioBuffer := [3, 0]\<rparr>,
         [User_audio_chunk [1, 0, 2, 0]])"
    by (simp add: ondata_def sendAudioToElevenLabs_def ws_open_def Let_def f1 b1 b2 b3
        initial_capture_def)
  from a b c d e1 e2 e3 show ?thesis by blast
qed

text \<open>
  The theorem at the frames of the example: the bound after the first frame, the flush at
  the second, the plain append of the third.
\<close>

theorem capture_accumulator_flush_witness:
  "length (audioBuffer (initial_capture\<lparr>elevenLabsWs := Some \<lparr>readyState = OPEN\<rparr>\<rparr>))
     < CHUNK_SIZE (config\<lparr>CHUNK_SIZE := 4\<rparr>)
   \<and> ws_open (initial_capture\<lparr>elevenLabsWs := Some \<lparr>readyState = OPEN\<rparr>,
                              audioBuffer := [1, 0]\<rparr>)
   \<and> length (audioBuffer (fst (capture_run (config\<lparr>CHUNK_SIZE := 4\<rparr>)
        [Frame \<lparr>samples = [1, 0, 0], sampleRate = 48000, bitsPerSample = 16, channelCount = 1,
                numberOfFrames = 3, samples_buffer = [1, 0, 0, 0, 0, 0]\<rparr>]
        (initial_capture\<lparr>elevenLabsWs := Some \<lparr>readyState = OPEN\<rparr>\<rparr>)))) < 4
   \<and> ondata (config\<lparr>CHUNK_SIZE := 4\<rparr>)
        \<lparr>samples = [2, 0, 0], sampleRate = 48000, bitsPerSample = 16, channelCount = 1,
          numberOfFrames = 3, samples_buffer = [2, 0, 0, 0, 0, 0]\<rparr>
        (initial_capture\<lparr>elevenLabsWs := Some \<lparr>readyState = OPEN\<rparr>, audioBuffer := [1, 0]\<rparr>)
      = (initial_capture\<lparr>elevenLabsWs := Some \<lparr>readyState = OPEN\<rparr>, sampleCount := 1,
                          audioSendCount := 1, audioBuffer := []\<rparr>,
         Some (User_audio_chunk [1, 0, 2, 0]))
   \<and> ondata (config\<lparr>CHUNK_SIZE := 4\<rparr>)
        \<lparr>samples = [3, 0, 0], sampleRate = 48000, bitsPerSample = 16, channelCount = 1,
          numberOfFrames = 3, samples_buffer = [3, 0, 0, 0, 0, 0]\<rparr>
        (initial_capture\<lparr>elevenLabsWs := Some \<lparr>readyState = OPEN\<rparr>\<rparr>)
      = (initial_capture\<lparr>elevenLabsWs := Some \<lparr>readyState = OPEN\<rparr>, sampleCount := 1,
                          audioBuffer := [3, 0]\<rparr>, None)"
proof -
  have f1: "snd (resampledSamples (config\<lparr>CHUNK_SIZE := 4\<rparr>)
        \<lparr>samples = [x, 0, 0], sampleRate = 48000, bitsPerSample = 16, channelCount = Suc 0,
                numberOfFrames = 3, samples_buffer = bb\<rparr>) = int16_bytes x" for x bb
    by (simp add: resampledSamples_def config_def downsample_def bytes_of_int16s_def)
  have b2: "int16_bytes 2 = [2, 0]" and b3: "int16_bytes 3 = [3, 0]"
    by (simp_all add: int16_bytes_def)
  have h1: "length (audioBuffer (initial_capture\<lparr>elevenLabsWs := Some \<lparr>readyState = OPEN\<rparr>\<rparr>))
     < CHUNK_SIZE (config\<lparr>CHUNK_SIZE := 4\<rparr>)"
    by (simp add: initial_capture_def)
  have h2: "ws_open (initial_capture\<lparr>elevenLabsWs := Some \<lparr>readyState = OPEN\<rparr>,
                              audioBuffer := [1, 0]\<rparr>)"
    by (simp add: ws_open_def)
  have h2': "ws_open (initial_capture\<lparr>elevenLabsWs := Some \<lparr>readyState = OPEN\<rparr>\<rparr>)"
    by (simp add: ws_open_def)
  have h3: "CHUNK_SIZE (config\<lparr>CHUNK_SIZE := 4\<rparr>)
      \<le> length (audioBuffer (initial_capture\<lparr>elevenLabsWs := Some \<lparr>readyState = OPEN\<rparr>,
                              audioBuffer := [1, 0]\<rparr>)
          @ snd (resampledSamples (config\<lparr>CHUNK_SIZE := 4\<rparr>)
        \<lparr>samples = [2, 0, 0], sampleRate = 48000, bitsPerSample = 16, channelCount = 1,
          numberOfFrames = 3, samples_buffer = [2, 0, 0, 0, 0, 0]\<rparr>))"
    by (simp add: f1 b2)
  have h4: "length (audioBuffer (initial_capture\<lparr>elevenLabsWs := Some \<lparr>readyState = OPEN\<rparr>\<rparr>)
          @ snd (resampledSamples (config\<lparr>CHUNK_SIZE := 4\<rparr>)
        \<lparr>samples = [3, 0, 0], sampleRate = 48000, bitsPerSample = 16, channelCount = 1,
          numberOfFrames = 3, samples_buffer = [3, 0, 0, 0, 0, 0]\<rparr>))
       < CHUNK_SIZE (config\<lparr>CHUNK_SIZE := 4\<rparr>)"
    by (simp add: f1 b3 initial_capture_def)
  note t1 = capture_accumulator_flush
    [of "initial_capture\<lparr>elevenLabsWs := Some \<lparr>readyState = OPEN\<rparr>\<rparr>"
        "config\<lparr>CHUNK_SIZE := 4\<rparr>"
        "[Frame \<lparr>samples = [1, 0, 0], sampleRate = 48000, bitsPerSample = 16, channelCount = 1,
                numberOfFrames = 3, samples_buffer = [1, 0, 0, 0, 0, 0]\<rparr>]"
        0
        "\<lparr>samples = [3, 0, 0], sampleRate = 48000, bitsPerSample = 16, channelCount = 1,
          numberOfFrames = 3, samples_buffer = [3, 0, 0, 0, 0, 0]\<rparr>"]
  note t2 = capture_accumulator_flush
    [of "initial_capture\<lparr>elevenLabsWs := Some \<lparr>readyState = OPEN\<rparr>, audioBuffer := [1, 0]\<rparr>"
        "config\<lparr>CHUNK_SIZE := 4\<rparr>"
        "[]"
        0
        "\<lparr>samples = [2, 0, 0], sampleRate = 48000, bitsPerSample = 16, channelCount = 1,
          numberOfFrames = 3, samples_buffer = [2, 0, 0, 0, 0, 0]\<rparr>"]
  from t1 h1 have c1: "length (audioBuffer (fst (capture_run (config\<lparr>CHUNK_SIZE := 4\<rparr>)
        [Frame \<lparr>samples = [1, 0, 0], sampleRate = 48000, bitsPerSample = 16, channelCount = 1,
                numberOfFrames = 3, samples_buffer = [1, 0, 0, 0, 0, 0]\<rparr>]
        (initial_capture\<lparr>elevenLabsWs := Some \<lparr>readyState = OPEN\<rparr>\<rparr>)))) < 4"
    by simp
  from t2 h2 h3 have c2: "ondata (config\<lparr>CHUNK_SIZE := 4\<rparr>)
        \<lparr>samples = [2, 0, 0], sampleRate = 48000, bitsPerSample = 16, channelCount = 1,
          numberOfFrames = 3, samples_buffer = [2, 0, 0, 0, 0, 0]\<rparr>
        (initial_capture\<lparr>elevenLabsWs := Some \<lparr>readyState = OPEN\<rparr>, audioBuffer := [1, 0]\<rparr>)
      = (initial_capture\<lparr>elevenLabsWs := Some \<lparr>readyState = OPEN\<rparr>, sampleCount := 1,
                          audioSendCount := 1, audioBuffer := []\<rparr>,
         Some (User_audio_chunk [1, 0, 2, 0]))"
    by (simp add: f1 b2 initial_capture_def)
  from t1 h2' h4 have c3: "ondata (config\<lparr>CHUNK_SIZE := 4\<rparr>)
        \<lparr>samples = [3, 0, 0], sampleRate = 48000, bitsPerSample = 16, channelCount = 1,
          numberOfFrames = 3, samples_buffer = [3, 0, 0, 0, 0, 0]\<rparr>
        (initial_capture\<lparr>elevenLabsWs := Some \<lparr>readyState = OPEN\<rparr>\<rparr>)
      = (initial_capture\<lparr>elevenLabsWs := Some \<lparr>readyState = OPEN\<rparr>, sampleCount := 1,
                          audioBuffer := [3, 0]\<rparr>, None)"
    by (simp add: f1 b3 initial_capture_def)
  from h1 h2 c1 c2 c3 show ?thesis by blast
qed

text \<open>
  C4, as stated, fails for an integer ratio other than 48000 / 16000: a frame at 32000 Hz
  has ratio 2 to the target rate of 16000, and its samples are passed on as they are, so
  output sample 1 is input sample 1 and not input sample 2.
\<close>

theorem other_integer_ratio_not_decimated:
  "16000 * 2 = (32000::nat)
   \<and> fst (resampledSamples config
        \<lparr>samples = [10, 20, 30, 40], sampleRate = 32000, bitsPerSample = 16, channelCount = 1,
          numberOfFrames = 4, samples_buffer = [10, 0, 20, 0, 30, 0, 40, 0]\<rparr>)
      = [10, 20, 30, 40]
   \<and> fst (resampledSamples config
        \<lparr>samples = [10, 20, 30, 40], sampleRate = 32000, bitsPerSample = 16, channelCount = 1,
          numberOfFrames = 4, samples_buffer = [10, 0, 20, 0, 30, 0, 40, 0]\<rparr>) ! 1
      \<noteq> [10, 20, 30, 40 :: int16] ! (1 * 2)"
  by (simp add: resampledSamples_def config_def)

text \<open>
  C4, amended. When the frame is at 48000 Hz (the default when it names no rate) and the
  target rate is 16000, so that the ratio is 3, downsampling is nearest-neighbour
  decimation: the output has \<open>floor(length / 3 / channelCount)\<close> samples, output sample
  \<open>i\<close> is the input sample at index \<open>i * 3 * channelCount\<close>, which lies inside the
  input and is channel 0 of an interleaved frame, and the bytes handed on are those of
  the output. For every other pairing of rates the samples and their bytes are handed on
  unchanged. For ratio 3 and the mono input 10, 20, 30, 40, 50, 60 the output is 10, 40.
\<close>

theorem downsample_decimation:
  "(ELEVENLABS_INPUT_SAMPLE_RATE cfg = 16000 \<and> (sampleRate d = 48000 \<or> sampleRate d = 0)
      \<longrightarrow> length (fst (resampledSamples cfg d))
            = length (samples d) div 3 div (if channelCount d = 0 then 1 else channelCount d)
        \<and> (\<forall>i < length (fst (resampledSamples cfg d)).
              i * 3 * (if channelCount d = 0 then 1 else channelCount d) < length (samples d)
              \<and> fst (resampledSamples cfg d) ! i
                  = samples d ! (i * 3 * (if channelCount d = 0 then 1 else channelCount d)))
        \<and> snd (resampledSamples cfg d) = bytes_of_int16s (fst (resampledSamples cfg d)))
   \<and> (\<not> (ELEVENLABS_INPUT_SAMPLE_RATE cfg = 16000 \<and> (sampleRate d = 48000 \<or> sampleRate d = 0))
      \<longrightarrow> resampledSamples cfg d = (samples d, samples_buffer d))
   \<and> fst (resampledSamples config
        \<lparr>samples = [10, 20, 30, 40, 50, 60], sampleRate = 48000, bitsPerSample = 16,
          channelCount = 1, numberOfFrames = 6,
          samples_buffer = [10, 0, 20, 0, 30, 0, 40, 0, 50, 0, 60, 0]\<rparr>)
      = [10, 40]"
proof -
  let ?ch = "if channelCount d = 0 then 1 else channelCount d"
  have a: "length (fst (resampledSamples cfg d)) = length (samples d) div 3 div ?ch
        \<and> (\<forall>i < length (fst (resampledSamples cfg d)).
              i * 3 * ?ch < length (samples d)
              \<and> fst (resampledSamples cfg d) ! i = samples d ! (i * 3 * ?ch))
        \<and> snd (resampledSamples cfg d) = bytes_of_int16s (fst (resampledSamples cfg d))"
    if g: "ELEVENLABS_INPUT_SAMPLE_RATE cfg = 16000 \<and> (sampleRate d = 48000 \<or> sampleRate d = 0)"
  proof -
    from g have r: "resampledSamples cfg d
        = (downsample 3 ?ch (samples d), bytes_of_int16s (downsample 3 ?ch (samples d)))"
      by (auto simp: resampledSamples_def Let_def)
    show ?thesis
      unfolding r fst_conv snd_conv
      by (auto simp only: downsample_length downsample_nth downsample_index)
  qed
  have b: "resampledSamples cfg d = (samples d, samples_buffer d)"
    if "\<not> (ELEVENLABS_INPUT_SAMPLE_RATE cfg = 16000 \<and> (sampleRate d = 48000 \<or> sampleRate d = 0))"
    using that by (auto simp: resampledSamples_def Let_def)
  have c: "fst (resampledSamples config
        \<lparr>samples = [10, 20, 30, 40, 50, 60], sampleRate = 48000, bitsPerSample = 16,
          channelCount = 1, numberOfFrames = 6,
          samples_buffer = [10, 0, 20, 0, 30, 0, 40, 0, 50, 0, 60, 0]\<rparr>)
      = [10, 40]"
    by (simp add: resampledSamples_def config_def downsample_def upt_rec Let_def)
  from a b c show ?thesis by blast
qed

text \<open>
  The theorem at a stereo frame at 48000 Hz, where one sample of channel 0 remains, and
  at a frame at 32000 Hz, which is passed through.
\<close>

theorem downsample_decimation_witness:
  "ELEVENLABS_INPUT_SAMPLE_RATE config = 16000
   \<and> sampleRate \<lparr>samples = [10, 20, 30, 40, 50, 60 :: int16], sampleRate = 48000,
          bitsPerSample = 16, channelCount = 2, numberOfFrames = 3,
          samples_buffer = [10, 0, 20, 0, 30, 0, 40, 0, 50, 0, 60, 0 :: byte]\<rparr> = 48000
   \<and> length (fst (resampledSamples config
        \<lparr>samples = [10, 20, 30, 40, 50, 60], sampleRate = 48000, bitsPerSample = 16,
          channelCount = 2, numberOfFrames = 3,
          samples_buffer = [10, 0, 20, 0, 30, 0, 40, 0, 50, 0, 60, 0]\<rparr>)) = 1
   \<and> (0::nat) < 1
   \<and> fst (resampledSamples config
        \<lparr>samples = [10, 20, 30, 40, 50, 60], sampleRate = 48000, bitsPerSample = 16,
          channelCount = 2, numberOfFrames = 3,
          samples_buffer = [10, 0, 20, 0, 30, 0, 40, 0, 50, 0, 60, 0]\<rparr>) ! 0 = 10
   \<and> \<not> (ELEVENLABS_INPUT_SAMPLE_RATE config = 16000
         \<and> ((32000::nat) = 48000 \<or> (32000::nat) = 0))
   \<and> resampledSamples config
        \<lparr>samples = [10, 20, 30, 40], sampleRate = 32000, bitsPerSample = 16, channelCount = 1,
          numberOfFrames = 4, samples_buffer = [10, 0, 20, 0, 30, 0, 40, 0]\<rparr>
      = ([10, 20, 30, 40], [10, 0, 20, 0, 30, 0, 40, 0])"
proof -
  note t1 = downsample_decimation [of config
        "\<lparr>samples = [10, 20, 30, 40, 50, 60], sampleRate = 48000, bitsPerSample = 16,
          channelCount = 2, numberOfFrames = 3,
          samples_buffer = [10, 0, 20, 0, 30, 0, 40, 0, 50, 0, 60, 0]\<rparr>"]
  note t2 = downsample_decimation [of config
        "\<lparr>samples = [10, 20, 30, 40], sampleRate = 32000, bitsPerSample = 16, channelCount = 1,
          numberOfFrames = 4, samples_buffer = [10, 0, 20, 0, 30, 0, 40, 0]\<rparr>"]
  have h: "ELEVENLABS_INPUT_SAMPLE_RATE config = 16000" by (simp add: config_def)
  from t1 h have l: "length (fst (resampledSamples config
        \<lparr>samples = [10, 20, 30, 40, 50, 60], sampleRate = 48000, bitsPerSample = 16,
          channelCount = 2, numberOfFrames = 3,
          samples_buffer = [10, 0, 20, 0, 30, 0, 40, 0, 50, 0, 60, 0]\<rparr>)) = 1"
    by simp
  from t1 h l have n: "fst (resampledSamples config
        \<lparr>samples = [10, 20, 30, 40, 50, 60], sampleRate = 48000, bitsPerSample = 16,
          channelCount = 2, numberOfFrames = 3,
          samples_buffer = [10, 0, 20, 0, 30, 0, 40, 0, 50, 0, 60, 0]\<rparr>) ! 0 = 10"
    by simp
  from t2 h have p: "resampledSamples config
        \<lparr>samples = [10, 20, 30, 40], sampleRate = 32000, bitsPerSample = 16, channelCount = 1,
          numberOfFrames = 4, samples_buffer = [10, 0, 20, 0, 30, 0, 40, 0]\<rparr>
      = ([10, 20, 30, 40], [10, 0, 20, 0, 30, 0, 40, 0])"
    by simp
  from h l n p show ?thesis by simp
qed

subsection \<open>Claims about the ingest handler\<close>

text \<open>
  The byte-length check of the handler keeps the even part of the payload, of which the
  view constructor accepts every byte; so the handler has three outcomes only.
\<close>

lemma pcmData_even_part:
  "(if length p mod 2 \<noteq> 0 then take (length p - 1) p else p) = take (2 * (length p div 2)) p"
proof (cases "length p mod 2 \<noteq> 0")
  case True
  then have "length p - 1 = 2 * (length p div 2)" by presburger
  with True show ?thesis by simp
next
  case False
  then have "2 * (length p div 2) = length p" by presburger
  with False show ?thesis by simp
qed

lemma new_Int16Array_even_part:
  "new_Int16Array (take (2 * (length p div 2)) p) 0
     (length (take (2 * (length p div 2)) p) div 2) = Inr (int16s_of_bytes p)"
proof -
  have l: "length (take (2 * (length p div 2)) p) = 2 * (length p div 2)"
    by simp
  show ?thesis
    unfolding new_Int16Array_def l
    by (simp add: int16s_of_bytes_even_part)
qed

lemma handleElevenLabsAudio_cases:
  "handleElevenLabsAudio p s =
     (case audioSource s of
        None \<Rightarrow> (s, NoAudioSource)
      | Some src \<Rightarrow>
          if length p < 2
          then (s\<lparr>elevenLabsAudioCount := elevenLabsAudioCount s + 1\<rparr>, Discarded)
          else (startAudioPlayback (addToPlaybackBuffer (int16s_of_bytes p)
                  (s\<lparr>elevenLabsAudioCount := elevenLabsAudioCount s + 1\<rparr>)), Buffered))"
proof -
  have l: "length (take (2 * (length p div 2)) p) < 2 \<longleftrightarrow> length p < 2"
    by (simp, presburger)
  show ?thesis
    unfolding handleElevenLabsAudio_def pcmData_even_part Let_def new_Int16Array_even_part l
    by (simp split: option.splits)
qed

text \<open>
  C6. Odd-length and undersized payloads are handled without error. With an audio source
  set, a payload of odd length is handled exactly as the payload without its last byte;
  a payload of at least 2 bytes appends its \<open>floor(length / 2)\<close> samples to the playback
  buffer, so 5 bytes give exactly 2 samples, those of the first 4 bytes; a payload of
  fewer than 2 bytes is discarded and leaves the playback buffer and the timer as they
  were. No call of the handler ends in its \<open>catch\<close> block.
\<close>

theorem odd_and_short_payloads:
  "(audioSource s \<noteq> None \<and> odd (length p)
      \<longrightarrow> handleElevenLabsAudio p s = handleElevenLabsAudio (butlast p) s)
   \<and> (audioSource s \<noteq> None \<and> 2 \<le> length p
      \<longrightarrow> snd (handleElevenLabsAudio p s) = Buffered
        \<and> elevenLabsAudioBuffer (fst (handleElevenLabsAudio p s))
            = elevenLabsAudioBuffer s @ int16s_of_bytes p
        \<and> length (int16s_of_bytes p) = length p div 2)
   \<and> (audioSource s \<noteq> None \<and> length p = 5
      \<longrightarrow> length (elevenLabsAudioBuffer (fst (handleElevenLabsAudio p s)))
            = length (elevenLabsAudioBuffer s) + 2
        \<and> elevenLabsAudioBuffer (fst (handleElevenLabsAudio p s))
            = elevenLabsAudioBuffer s @ int16s_of_bytes (take 4 p))
   \<and> (length p < 2
      \<longrightarrow> snd (handleElevenLabsAudio p s) \<in> {Discarded, NoAudioSource}
        \<and> elevenLabsAudioBuffer (fst (handleElevenLabsAudio p s)) = elevenLabsAudioBuffer s
        \<and> audioPlaybackTimer (fst (handleElevenLabsAudio p s)) = audioPlaybackTimer s
        \<and> intervals (fst (handleElevenLabsAudio p s)) = intervals s)
   \<and> (\<forall>err. snd (handleElevenLabsAudio p s) \<noteq> Caught err)"
proof -
  have a: "handleElevenLabsAudio p s = handleElevenLabsAudio (butlast p) s"
    if h: "audioSource s \<noteq> None \<and> odd (length p)"
  proof -
    from h have o: "length p mod 2 \<noteq> 0" by presburger
    have "int16s_of_bytes (butlast p) = int16s_of_bytes p"
      using int16s_of_bytes_odd [OF o] by (simp add: butlast_conv_take)
    moreover have "length (butlast p) = length p - 1" by simp
    with o have "length (butlast p) < 2 \<longleftrightarrow> length p < 2"
      by presburger
    ultimately show ?thesis
      by (simp only: handleElevenLabsAudio_cases)
  qed
  have bf: "snd (handleElevenLabsAudio p s) = Buffered
        \<and> elevenLabsAudioBuffer (fst (handleElevenLabsAudio p s))
            = elevenLabsAudioBuffer s @ int16s_of_bytes p
        \<and> length (int16s_of_bytes p) = length p div 2"
    if "audioSource s \<noteq> None \<and> 2 \<le> length p"
    using that
    by (auto simp: handleElevenLabsAudio_cases int16s_of_bytes_length startAudioPlayback_def
        addToPlaybackBuffer_def)
  have five: "length (elevenLabsAudioBuffer (fst (handleElevenLabsAudio p s)))
            = length (elevenLabsAudioBuffer s) + 2
        \<and> elevenLabsAudioBuffer (fst (handleElevenLabsAudio p s))
            = elevenLabsAudioBuffer s @ int16s_of_bytes (take 4 p)"
    if h: "audioSource s \<noteq> None \<and> length p = 5"
  proof -
    from h have "length p mod 2 \<noteq> 0" by simp
    from int16s_of_bytes_odd [OF this] h
    have "int16s_of_bytes (take 4 p) = int16s_of_bytes p" by simp
    with bf h show ?thesis by simp
  qed
  have short: "snd (handleElevenLabsAudio p s) \<in> {Discarded, NoAudioSource}
        \<and> elevenLabsAudioBuffer (fst (handleElevenLabsAudio p s)) = elevenLabsAudioBuffer s
        \<and> audioPlaybackTimer (fst (handleElevenLabsAudio p s)) = audioPlaybackTimer s
        \<and> intervals (fst (handleElevenLabsAudio p s)) = intervals s"
    if "length p < 2"
    using that by (auto simp: handleElevenLabsAudio_cases split: option.splits)
  have noerr: "\<forall>err. snd (handleElevenLabsAudio p s) \<noteq> Caught err"
    by (simp add: handleElevenLabsAudio_cases split: option.splits)
  from a bf five short noerr show ?thesis by blast
qed

text \<open>
  The theorem at a payload of 5 bytes, which leaves the samples 300 and 1234 in the
  buffer as its first 4 bytes alone do, and at a payload of 1 byte, which is discarded.
\<close>

theorem odd_and_short_payloads_witness:
  "audioSource (initial_playback (Some 0)) \<noteq> None
   \<and> odd (length [44, 1, 210, 4, 7 :: byte])
   \<and> length [44, 1, 210, 4, 7 :: byte] = 5
   \<and> length [7 :: byte] < 2
   \<and> handleElevenLabsAudio [44, 1, 210, 4, 7] (initial_playback (Some 0))
       = handleElevenLabsAudio [44, 1, 210, 4] (initial_playback (Some 0))
   \<and> elevenLabsAudioBuffer
        (fst (handleElevenLabsAudio [44, 1, 210, 4, 7] (initial_playback (Some 0))))
       = [300, 1234]
   \<and> snd (handleElevenLabsAudio [44, 1, 210, 4, 7] (initial_playback (Some 0))) = Buffered
   \<and> snd (handleElevenLabsAudio [7] (initial_playback (Some 0))) = Discarded
   \<and> elevenLabsAudioBuffer (fst (handleElevenLabsAudio [7] (initial_playback (Some 0)))) = []"
proof -
  note t5 = odd_and_short_payloads [of "initial_playback (Some 0)" "[44, 1, 210, 4, 7]"]
  note t1 = odd_and_short_payloads [of "initial_playback (Some 0)" "[7]"]
  have src: "audioSource (initial_playback (Some 0)) \<noteq> None"
    by (simp add: initial_playback_def)
  have e: "elevenLabsAudioBuffer (initial_playback (Some 0)) = []"
    by (simp add: initial_playback_def)
  have d: "int16s_of_bytes (take 4 [44, 1, 210, 4, 7]) = [300, 1234]"
    by simp
  have o5: "odd (length [44, 1, 210, 4, 7 :: byte])" by simp
  have l5: "length [44, 1, 210, 4, 7 :: byte] = 5" by simp
  have g2: "2 \<le> length [44, 1, 210, 4, 7 :: byte]" by simp
  have l1: "length [7 :: byte] < 2" by simp
  have bl: "butlast [44, 1, 210, 4, 7 :: byte] = [44, 1, 210, 4]" by simp
  from t5 src o5
  have "handleElevenLabsAudio [44, 1, 210, 4, 7] (initial_playback (Some 0))
       = handleElevenLabsAudio (butlast [44, 1, 210, 4, 7]) (initial_playback (Some 0))"
    by blast
  then have a: "handleElevenLabsAudio [44, 1, 210, 4, 7] (initial_playback (Some 0))
       = handleElevenLabsAudio [44, 1, 210, 4] (initial_playback (Some 0))"
    by (simp only: bl)
  from t5 src l5 have "elevenLabsAudioBuffer
        (fst (handleElevenLabsAudio [44, 1, 210, 4, 7] (initial_playback (Some 0))))
       = elevenLabsAudioBuffer (initial_playback (Some 0))
           @ int16s_of_bytes (take 4 [44, 1, 210, 4, 7])"
    by blast
  then have b: "elevenLabsAudioBuffer
        (fst (handleElevenLabsAudio [44, 1, 210, 4, 7] (initial_playback (Some 0))))
       = [300, 1234]"
    by (simp only: e d append_Nil)
  from t5 src g2
  have c: "snd (handleElevenLabsAudio [44, 1, 210, 4, 7] (initial_playback (Some 0))) = Buffered"
    by blast
  have ns: "snd (handleElevenLabsAudio [7] (initial_playback (Some 0))) \<noteq> NoAudioSource"
    by (simp add: handleElevenLabsAudio_cases initial_playback_def)
  from t1 l1 ns
  have f: "snd (handleElevenLabsAudio [7] (initial_playback (Some 0))) = Discarded"
    by blast
  from t1 l1
  have "elevenLabsAudioBuffer (fst (handleElevenLabsAudio [7] (initial_playback (Some 0))))
          = elevenLabsAudioBuffer (initial_playback (Some 0))"
    by blast
  then have g: "elevenLabsAudioBuffer
        (fst (handleElevenLabsAudio [7] (initial_playback (Some 0)))) = []"
    by (simp only: e)
  from src o5 l5 l1 a b c f g show ?thesis by blast
qed

subsection \<open>Claims about unsupported rate ratios and the closed socket\<close>

text \<open>
  C7, as stated, fails: no rate ratio is checked anywhere. With a native rate of 44100,
  which 16000 does not divide, \<open>setupAudioBridge\<close> installs the sink as usual, and a
  frame at that rate is processed: its bytes are appended to the accumulator unresampled.
\<close>

theorem non_integer_ratio_processed:
  "\<not> (16000 dvd (44100::nat))
   \<and> setupAudioBridge (config\<lparr>WHATSAPP_SAMPLE_RATE := 44100\<rparr>)
        (initial_capture\<lparr>whatsappStream := Some 1, elevenLabsWs := Some \<lparr>readyState = OPEN\<rparr>\<rparr>)
      = (initial_capture\<lparr>whatsappStream := Some 1, elevenLabsWs := Some \<lparr>readyState = OPEN\<rparr>,
                          audioSink := True\<rparr>, SinkInstalled)
   \<and> ondata (config\<lparr>WHATSAPP_SAMPLE_RATE := 44100\<rparr>)
        \<lparr>samples = [10, 20, 30], sampleRate = 44100, bitsPerSample = 16, channelCount = 1,
          numberOfFrames = 3, samples_buffer = [10, 0, 20, 0, 30, 0]\<rparr>
        (initial_capture\<lparr>whatsappStream := Some 1, elevenLabsWs := Some \<lparr>readyState = OPEN\<rparr>,
                          audioSink := True\<rparr>)
      = (initial_capture\<lparr>whatsappStream := Some 1, elevenLabsWs := Some \<lparr>readyState = OPEN\<rparr>,
                          audioSink := True, sampleCount := 1,
                          audioBuffer := [10, 0, 20, 0, 30, 0]\<rparr>, None)"
  by (simp add: setupAudioBridge_def initial_capture_def ondata_def ws_open_def
      resampledSamples_def config_def Let_def)

text \<open>
  C7, amended. For a configuration whose native rate is not an integer multiple of the
  target rate, no error is reported at session start or per frame: \<open>setupAudioBridge\<close>
  does exactly what it does under the shipped configuration, the only error it can log
  is that of a missing stream, and every frame at the native rate is processed with its
  samples passed through unresampled.
\<close>

theorem non_integer_ratio_passes_through:
  "\<not> (ELEVENLABS_INPUT_SAMPLE_RATE cfg dvd WHATSAPP_SAMPLE_RATE cfg)
   \<longrightarrow> setupAudioBridge cfg s = setupAudioBridge config s
     \<and> (\<forall>err. snd (setupAudioBridge cfg s) = SetupCaught err \<longrightarrow> whatsappStream s = None)
     \<and> (sampleRate d = WHATSAPP_SAMPLE_RATE cfg
          \<longrightarrow> resampledSamples cfg d = (samples d, samples_buffer d))"
proof
  assume n: "\<not> (ELEVENLABS_INPUT_SAMPLE_RATE cfg dvd WHATSAPP_SAMPLE_RATE cfg)"
  have a: "setupAudioBridge cfg s = setupAudioBridge config s"
    by (simp add: setupAudioBridge_def)
  have b: "\<forall>err. snd (setupAudioBridge cfg s) = SetupCaught err \<longrightarrow> whatsappStream s = None"
    by (auto simp: setupAudioBridge_def split: option.splits if_splits)
  have c: "resampledSamples cfg d = (samples d, samples_buffer d)"
    if r: "sampleRate d = WHATSAPP_SAMPLE_RATE cfg"
  proof -
    have "\<not> (ELEVENLABS_INPUT_SAMPLE_RATE cfg = 16000
              \<and> (sampleRate d = 48000 \<or> sampleRate d = 0))"
    proof
      assume g: "ELEVENLABS_INPUT_SAMPLE_RATE cfg = 16000
              \<and> (sampleRate d = 48000 \<or> sampleRate d = 0)"
      then have "(16000::nat) dvd sampleRate d" by auto
      with g r n show False by simp
    qed
    then show ?thesis
      by (auto simp: resampledSamples_def Let_def)
  qed
  from a b c
  show "setupAudioBridge cfg s = setupAudioBridge config s
     \<and> (\<forall>err. snd (setupAudioBridge cfg s) = SetupCaught err \<longrightarrow> whatsappStream s = None)
     \<and> (sampleRate d = WHATSAPP_SAMPLE_RATE cfg
          \<longrightarrow> resampledSamples cfg d = (samples d, samples_buffer d))"
    by blast
qed

text \<open>
  The theorem at the configuration with a native rate of 44100: set up without a
  stream, the only error is that of the missing stream, and a frame passes through.
\<close>

theorem non_integer_ratio_passes_through_witness:
  "\<not> (ELEVENLABS_INPUT_SAMPLE_RATE (config\<lparr>WHATSAPP_SAMPLE_RATE := 44100\<rparr>)
        dvd WHATSAPP_SAMPLE_RATE (config\<lparr>WHATSAPP_SAMPLE_RATE := 44100\<rparr>))
   \<and> snd (setupAudioBridge (config\<lparr>WHATSAPP_SAMPLE_RATE := 44100\<rparr>) initial_capture)
       = SetupCaught TypeError
   \<and> whatsappStream initial_capture = None
   \<and> resampledSamples (config\<lparr>WHATSAPP_SAMPLE_RATE := 44100\<rparr>)
        \<lparr>samples = [10, 20, 30], sampleRate = 44100, bitsPerSample = 16, channelCount = 1,
          numberOfFrames = 3, samples_buffer = [10, 0, 20, 0, 30, 0]\<rparr>
      = ([10, 20, 30], [10, 0, 20, 0, 30, 0])"
proof -
  note t = non_integer_ratio_passes_through [of "config\<lparr>WHATSAPP_SAMPLE_RATE := 44100\<rparr>"
        initial_capture
        "\<lparr>samples = [10, 20, 30], sampleRate = 44100, bitsPerSample = 16, channelCount = 1,
          numberOfFrames = 3, samples_buffer = [10, 0, 20, 0, 30, 0]\<rparr>"]
  have n: "\<not> (ELEVENLABS_INPUT_SAMPLE_RATE (config\<lparr>WHATSAPP_SAMPLE_RATE := 44100\<rparr>)
        dvd WHATSAPP_SAMPLE_RATE (config\<lparr>WHATSAPP_SAMPLE_RATE := 44100\<rparr>))"
    by (simp add: config_def)
  have c: "snd (setupAudioBridge (config\<lparr>WHATSAPP_SAMPLE_RATE := 44100\<rparr>) initial_capture)
       = SetupCaught TypeError"
    by (simp add: setupAudioBridge_def initial_capture_def)
  have r: "sampleRate \<lparr>samples = [10, 20, 30 :: int16], sampleRate = 44100, bitsPerSample = 16,
          channelCount = 1, numberOfFrames = 3, samples_buffer = [10, 0, 20, 0, 30, 0 :: byte]\<rparr>
        = WHATSAPP_SAMPLE_RATE (config\<lparr>WHATSAPP_SAMPLE_RATE := 44100\<rparr>)"
    by simp
  from t n c have w: "whatsappStream initial_capture = None" by blast
  from t n r have p: "resampledSamples (config\<lparr>WHATSAPP_SAMPLE_RATE := 44100\<rparr>)
        \<lparr>samples = [10, 20, 30], sampleRate = 44100, bitsPerSample = 16, channelCount = 1,
          numberOfFrames = 3, samples_buffer = [10, 0, 20, 0, 30, 0]\<rparr>
      = (samples \<lparr>samples = [10, 20, 30 :: int16], sampleRate = 44100, bitsPerSample = 16,
          channelCount = 1, numberOfFrames = 3, samples_buffer = [10, 0, 20, 0, 30, 0 :: byte]\<rparr>,
         samples_buffer \<lparr>samples = [10, 20, 30 :: int16], sampleRate = 44100, bitsPerSample = 16,
          channelCount = 1, numberOfFrames = 3, samples_buffer = [10, 0, 20, 0, 30, 0 :: byte]\<rparr>)"
    by blast
  from n c w p show ?thesis by simp
qed

text \<open>While the socket is not open and no event opens it, nothing is sent.\<close>

lemma closed_step:
  assumes "\<not> ws_open s" and "e \<noteq> SetElevenLabsWs (Some \<lparr>readyState = OPEN\<rparr>)"
  shows "snd (capture_step cfg e s) = None \<and> \<not> ws_open (fst (capture_step cfg e s))"
proof (cases e)
  case (Frame d)
  with assms show ?thesis by (simp add: ondata_def)
next
  case (SetElevenLabsWs w)
  with assms show ?thesis
    by (cases w) (auto simp: ws_open_def)
qed

lemma closed_run:
  assumes "\<not> ws_open s" and "SetElevenLabsWs (Some \<lparr>readyState = OPEN\<rparr>) \<notin> set es"
  shows "snd (capture_run cfg es s) = []"
  using assms
proof (induction es arbitrary: s)
  case Nil
  then show ?case by simp
next
  case (Cons e es)
  from Cons.prems have ne: "e \<noteq> SetElevenLabsWs (Some \<lparr>readyState = OPEN\<rparr>)"
    and rest: "SetElevenLabsWs (Some \<lparr>readyState = OPEN\<rparr>) \<notin> set es"
    by auto
  from closed_step [OF Cons.prems(1) ne]
  have st: "snd (capture_step cfg e s) = None" "\<not> ws_open (fst (capture_step cfg e s))"
    by simp_all
  from Cons.IH [OF st(2) rest] st(1) show ?case
    by (simp add: split_beta)
qed

text \<open>
  C8. Nothing is sent to the streaming leg while the socket is not open. With the socket
  missing or in another state than open, the capture callback returns at once, and
  \<open>sendAudioToElevenLabs\<close> drops the chunk it is given: no message, no change of state,
  no error, nothing kept for a retry; the run goes on as if the frame had not come.
  Conversely a message is only ever handed to the socket in a state where it is open,
  and a run that starts with the socket closed and never opens it sends nothing.
\<close>

theorem no_send_while_closed:
  "(\<not> ws_open s
      \<longrightarrow> ondata cfg d s = (s, None) \<and> sendAudioToElevenLabs chunk s = (s, None)
        \<and> capture_run cfg (Frame d # es) s = capture_run cfg es s)
   \<and> (snd (ondata cfg d s) \<noteq> None \<longrightarrow> ws_open s)
   \<and> (snd (sendAudioToElevenLabs chunk s) \<noteq> None \<longrightarrow> ws_open s)
   \<and> (\<not> ws_open s \<and> SetElevenLabsWs (Some \<lparr>readyState = OPEN\<rparr>) \<notin> set es
      \<longrightarrow> snd (capture_run cfg es s) = [])"
proof -
  have a: "ondata cfg d s = (s, None) \<and> sendAudioToElevenLabs chunk s = (s, None)
        \<and> capture_run cfg (Frame d # es) s = capture_run cfg es s" if "\<not> ws_open s"
    using that by (simp add: ondata_def sendAudioToElevenLabs_def)
  have b: "snd (ondata cfg d s) \<noteq> None \<longrightarrow> ws_open s"
    by (auto simp: ondata_def)
  have c: "snd (sendAudioToElevenLabs chunk s) \<noteq> None \<longrightarrow> ws_open s"
    by (auto simp: sendAudioToElevenLabs_def)
  have d: "snd (capture_run cfg es s) = []"
    if "\<not> ws_open s \<and> SetElevenLabsWs (Some \<lparr>readyState = OPEN\<rparr>) \<notin> set es"
    using that closed_run by blast
  from a b c d show ?thesis by blast
qed

text \<open>
  The theorem at a socket in state 3 (closed) with two bytes accumulated: the frame
  that would complete a chunk is ignored and a chunk handed to the sender is dropped;
  and at an open socket, where the sender does send.
\<close>

theorem no_send_while_closed_witness:
  "\<not> ws_open (initial_capture\<lparr>elevenLabsWs := Some \<lparr>readyState = 3\<rparr>, audioBuffer := [1, 0]\<rparr>)
   \<and> ondata (config\<lparr>CHUNK_SIZE := 4\<rparr>)
        \<lparr>samples = [2, 0, 0], sampleRate = 48000, bitsPerSample = 16, channelCount = 1,
          numberOfFrames = 3, samples_buffer = [2, 0, 0, 0, 0, 0]\<rparr>
        (initial_capture\<lparr>elevenLabsWs := Some \<lparr>readyState = 3\<rparr>, audioBuffer := [1, 0]\<rparr>)
      = (initial_capture\<lparr>elevenLabsWs := Some \<lparr>readyState = 3\<rparr>, audioBuffer := [1, 0]\<rparr>, None)
   \<and> sendAudioToElevenLabs [1, 0, 2, 0]
        (initial_capture\<lparr>elevenLabsWs := Some \<lparr>readyState = 3\<rparr>, audioBuffer := [1, 0]\<rparr>)
      = (initial_capture\<lparr>elevenLabsWs := Some \<lparr>readyState = 3\<rparr>, audioBuffer := [1, 0]\<rparr>, None)
   \<and> SetElevenLabsWs (Some \<lparr>readyState = OPEN\<rparr>)
        \<notin> set [Frame \<lparr>samples = [2, 0, 0], sampleRate = 48000, bitsPerSample = 16,
                       channelCount = 1, numberOfFrames = 3,
                       samples_buffer = [2, 0, 0, 0, 0, 0]\<rparr>,
                SetElevenLabsWs None]
   \<and> snd (capture_run (config\<lparr>CHUNK_SIZE := 4\<rparr>)
        [Frame \<lparr>samples = [2, 0, 0], sampleRate = 48000, bitsPerSample = 16,
                       channelCount = 1, numberOfFrames = 3,
                       samples_buffer = [2, 0, 0, 0, 0, 0]\<rparr>,
                SetElevenLabsWs None]
        (initial_capture\<lparr>elevenLabsWs := Some \<lparr>readyState = 3\<rparr>, audioBuffer := [1, 0]\<rparr>)) = []
   \<and> snd (sendAudioToElevenLabs [1, 0, 2, 0]
        (initial_capture\<lparr>elevenLabsWs := Some \<lparr>readyState = OPEN\<rparr>\<rparr>)) \<noteq> None
   \<and> ws_open (initial_capture\<lparr>elevenLabsWs := Some \<lparr>readyState = OPEN\<rparr>\<rparr>)"
proof -
  note t = no_send_while_closed
    [of "initial_capture\<lparr>elevenLabsWs := Some \<lparr>readyState = 3\<rparr>, audioBuffer := [1, 0]\<rparr>"
        "config\<lparr>CHUNK_SIZE := 4\<rparr>"
        "\<lparr>samples = [2, 0, 0], sampleRate = 48000, bitsPerSample = 16, channelCount = 1,
          numberOfFrames = 3, samples_buffer = [2, 0, 0, 0, 0, 0]\<rparr>"
        "[1, 0, 2, 0]"
        "[Frame \<lparr>samples = [2, 0, 0], sampleRate = 48000, bitsPerSample = 16,
                       channelCount = 1, numberOfFrames = 3,
                       samples_buffer = [2, 0, 0, 0, 0, 0]\<rparr>,
                SetElevenLabsWs None]"]
  note u = no_send_while_closed
    [of "initial_capture\<lparr>elevenLabsWs := Some \<lparr>readyState = OPEN\<rparr>\<rparr>" _ _ "[1, 0, 2, 0]"]
  have c: "\<not> ws_open (initial_capture\<lparr>elevenLabsWs := Some \<lparr>readyState = 3\<rparr>,
                                  audioBuffer := [1, 0]\<rparr>)"
    by (simp add: ws_open_def OPEN_def)
  have n: "SetElevenLabsWs (Some \<lparr>readyState = OPEN\<rparr>)
        \<notin> set [Frame \<lparr>samples = [2, 0, 0], sampleRate = 48000, bitsPerSample = 16,
                       channelCount = 1, numberOfFrames = 3,
                       samples_buffer = [2, 0, 0, 0, 0, 0]\<rparr>,
                SetElevenLabsWs None]"
    by simp
  have s: "snd (sendAudioToElevenLabs [1, 0, 2, 0]
        (initial_capture\<lparr>elevenLabsWs := Some \<lparr>readyState = OPEN\<rparr>\<rparr>)) \<noteq> None"
    by (simp add: sendAudioToElevenLabs_def ws_open_def)
  from u s have o: "ws_open (initial_capture\<lparr>elevenLabsWs := Some \<lparr>readyState = OPEN\<rparr>\<rparr>)"
    by blast
  from t c n s o show ?thesis by blast
qed

subsection \<open>Claims about the upsampling handler\<close>

text \<open>
  What the two loops leave in the output array, for the ratio 3 of the two rates: three
  positions for every input sample; at position \<open>3 * i + j\<close>, for a pair of consecutive
  input samples \<open>s[i]\<close>, \<open>s[i+1]\<close> and \<open>j\<close> below 3, the value
  \<open>round(s[i] * (1 - t) + s[i+1] * t)\<close> with \<open>t = j / 3\<close>; and at the three positions of
  the last input sample, which no pass of the loop writes, the zero the array was
  created with.
\<close>

lemma upsample_positions:
  "length (upsample 3 xs) = 3 * length xs
   \<and> (\<forall>i j. i + 1 < length xs \<and> j < 3
        \<longrightarrow> upsample 3 xs ! (3 * i + j) = interpolate 3 (xs ! i) (xs ! (i + 1)) j)
   \<and> (\<forall>k. 3 * (length xs - 1) \<le> k \<and> k < 3 * length xs \<longrightarrow> upsample 3 xs ! k = 0)
   \<and> interpolate 3 a b j
       = word_of_int \<lfloor>rat_of_int (sint a) * (1 - rat_of_nat j / 3)
                        + rat_of_int (sint b) * (rat_of_nat j / 3) + 1 / 2\<rfloor>
   \<and> server_WHATSAPP_SAMPLE_RATE div ELEVENLABS_SAMPLE_RATE = 3
   \<and> upsample 3 [0, 300] = [0, 100, 200, 0, 0, 0]"
proof -
  have l: "length (upsample 3 xs) = 3 * length xs"
    by (simp add: upsample_length)
  have p: "upsample 3 xs ! (3 * i + j) = interpolate 3 (xs ! i) (xs ! (i + 1)) j"
    if h: "i + 1 < length xs \<and> j < 3" for i j
  proof -
    from h have k: "3 * i + j < length xs * 3" by linarith
    from h have k': "3 * i + j < (length xs - 1) * 3" by linarith
    from h have d: "(3 * i + j) div 3 = i" and m: "(3 * i + j) mod 3 = j" by simp_all
    have "upsample 3 xs ! (3 * i + j)
        = interpolate 3 (xs ! ((3 * i + j) div 3)) (xs ! ((3 * i + j) div 3 + 1))
            ((3 * i + j) mod 3)"
      using upsample_nth [of 3 "3 * i + j" xs] k k' by simp
    then show ?thesis by (simp only: d m)
  qed
  have z: "upsample 3 xs ! k = 0" if h: "3 * (length xs - 1) \<le> k \<and> k < 3 * length xs" for k
  proof -
    from h have "k < length xs * 3" and "\<not> k < (length xs - 1) * 3" by linarith+
    then show ?thesis using upsample_nth [of 3 k xs] by simp
  qed
  have f: "interpolate 3 a b j
       = word_of_int \<lfloor>rat_of_int (sint a) * (1 - rat_of_nat j / 3)
                        + rat_of_int (sint b) * (rat_of_nat j / 3) + 1 / 2\<rfloor>"
    by (simp add: interpolate_def Math_round_def)
  have r: "server_WHATSAPP_SAMPLE_RATE div ELEVENLABS_SAMPLE_RATE = 3"
    by (simp add: server_WHATSAPP_SAMPLE_RATE_def ELEVENLABS_SAMPLE_RATE_def)
  have e: "upsample 3 [0, 300] = [0, 100, 200, 0, 0, 0]"
    by code_simp
  from l p z f r e show ?thesis by blast
qed

text \<open>
  C5. The interpolated values are those the claim gives, but the handler does emit
  samples for the last input sample, which has no successor: the whole array goes to
  \<open>audioSource.onData\<close>, and its last three positions were never written. For the input
  0, 300, the bytes 0, 0, 44, 1, the emitted samples are 0, 100, 200, 0, 0, 0 and the
  frame count is 6, where the claim has 0, 100, 200.
\<close>

theorem upsample_pads_tail_with_zeros:
  "server_handleElevenLabsAudio (Some 0) [0, 0, 44, 1] 0
     = Inr (Some (0, \<lparr> samples = [0, 100, 200, 0, 0, 0], sampleRate = 48000,
                        bitsPerSample = 16, channelCount = 1, numberOfFrames = 6 \<rparr>))"
proof -
  have v: "new_Int16Array (replicate 0 0 @ [0, 0, 44, 1]) 0 (length [0, 0, 44, 1 :: byte] div 2)
             = Inr [0, 300]"
    by (simp add: new_Int16Array_def)
  have r: "server_WHATSAPP_SAMPLE_RATE div ELEVENLABS_SAMPLE_RATE = 3"
    by (simp add: server_WHATSAPP_SAMPLE_RATE_def ELEVENLABS_SAMPLE_RATE_def)
  have e: "upsample 3 [0, 300] = [0, 100, 200, 0, 0, 0]"
    by code_simp
  show ?thesis
    unfolding server_handleElevenLabsAudio_def v r Let_def
    by (simp add: server_WHATSAPP_SAMPLE_RATE_def e)
qed

end
